theory Spec2Isabelle
  imports Main
begin

section \<open>The Protocol IR registry (protocol.py)\<close>

subsection \<open>Errors\<close>

text \<open>
  Every \<^verbatim>\<open>raise TypeError(...)\<close> of protocol.py is one constructor, named after the
  message it carries; a failed dictionary lookup (\<^verbatim>\<open>KeyError\<close>) is \<open>UnknownReference\<close>.
\<close>

datatype error =
    UnsupportedConstruct
  | DuplicateDefinition
  | MalformedName
  | UnknownReference
  | TypeMismatch
  | ScopeError
  | UnsupportedExpression

subsection \<open>The objects of protocoltypes\<close>

text \<open>
  A reference to a Type object is the key under which \<^verbatim>\<open>Protocol._types\<close> holds it: a
  key is never rebound (a second definition of a name is rejected), so keys and objects
  correspond one to one. \<^verbatim>\<open>None\<close> where a type is expected is \<open>None\<close>.
\<close>

type_synonym tref = string

datatype json_value = JInt int | JStr string

record Parameter =
  param_name :: string
  param_type :: "tref option"

record Function =
  func_name :: string
  parameters :: "Parameter list"
  return_type :: "tref option"

record Trait =
  trait_name :: string
  trait_methods :: "Function list"

record Argument =
  arg_name :: string
  arg_type :: "tref option"

datatype Expression =
    MethodInvocationExpression Expression string "Argument list"
  | FunctionInvocationExpression Function "Argument list"
  | FieldAccessExpression Expression string
  | ContextAccessExpression string
  | IfElseExpression Expression Expression Expression
  | ThisExpression tref
  | ConstantExpression tref json_value

record Transform =
  into_name :: string
  into_type :: tref
  tr_using :: Function

record Field =
  field_name :: string
  field_type :: tref
  is_present :: Expression
  transform :: "Transform option"

text \<open>
  A Type object. Its \<^verbatim>\<open>traits\<close> and \<^verbatim>\<open>methods\<close> attributes are dictionaries, which are
  objects of their own: the record holds their addresses in the store, so that a shallow
  copy of a Type shares both dictionaries with the original until they are replaced.
\<close>

record Type =
  t_kind :: string
  t_name :: string
  t_traits :: nat
  t_methods :: nat
  t_size :: "int option"
  t_element_type :: "tref option"
  t_length :: "int option"
  t_fields :: "Field list"
  t_constraints :: "Expression list"
  t_actions :: "Expression list"
  t_variants :: "tref list"

subsection \<open>The registry and the store of dictionaries\<close>

record Protocol =
  p_types :: "string \<rightharpoonup> Type"
  p_traits :: "string \<rightharpoonup> Trait"
  p_funcs :: "string \<rightharpoonup> Function"
  trait_dicts :: "nat \<Rightarrow> (string \<rightharpoonup> Trait)"
  method_dicts :: "nat \<Rightarrow> (string \<rightharpoonup> Function)"
  next_obj :: nat

text \<open>
  The two name patterns \<^verbatim>\<open>TYPE_NAME_REGEX\<close> and \<^verbatim>\<open>FUNC_NAME_REGEX\<close> are constants of
  protocoltypes; the registry only asks whether \<^verbatim>\<open>re.search\<close> finds a match, so they
  are taken as two predicates on names.
\<close>

record lexer =
  TYPE_NAME_REGEX :: "string \<Rightarrow> bool"
  FUNC_NAME_REGEX :: "string \<Rightarrow> bool"

text \<open>
  Modelled from the spec: the constructors of the Type classes of protocoltypes
  (\<^verbatim>\<open>Nothing\<close>, \<^verbatim>\<open>Boolean\<close>, \<^verbatim>\<open>Size\<close>, \<^verbatim>\<open>BitString\<close>, \<^verbatim>\<open>Array\<close>, \<^verbatim>\<open>Struct\<close>, \<^verbatim>\<open>Enum\<close>) are
  missing from the sources. Each object starts with an empty trait dictionary and an
  empty method dictionary of its own; an Array's size is its element's size times its
  length when the element has a size.
\<close>

definition new_Type :: "string \<Rightarrow> string \<Rightarrow> Protocol \<Rightarrow> Type \<times> Protocol" where
  "new_Type k n P =
     (\<lparr>t_kind = k, t_name = n,
       t_traits = next_obj P, t_methods = Suc (next_obj P),
       t_size = None, t_element_type = None, t_length = None,
       t_fields = [], t_constraints = [], t_actions = [], t_variants = []\<rparr>,
      P\<lparr>trait_dicts := (trait_dicts P)(next_obj P := Map.empty),
        method_dicts := (method_dicts P)(Suc (next_obj P) := Map.empty),
        next_obj := Suc (Suc (next_obj P))\<rparr>)"

definition BitString :: "string \<Rightarrow> int \<Rightarrow> Protocol \<Rightarrow> Type \<times> Protocol" where
  "BitString n sz P =
     (case new_Type ''BitString'' n P of (T, P') \<Rightarrow> (T\<lparr>t_size := Some sz\<rparr>, P'))"

definition Array :: "string \<Rightarrow> tref \<Rightarrow> Type \<Rightarrow> int \<Rightarrow> Protocol \<Rightarrow> Type \<times> Protocol" where
  "Array n el E len P =
     (case new_Type ''Array'' n P of (T, P') \<Rightarrow>
        (T\<lparr>t_element_type := Some el, t_length := Some len,
           t_size := (case t_size E of None \<Rightarrow> None | Some s \<Rightarrow> Some (s * len))\<rparr>, P'))"

definition Struct :: "string \<Rightarrow> Protocol \<Rightarrow> Type \<times> Protocol" where
  "Struct n P = new_Type ''Struct'' n P"

definition Enum :: "string \<Rightarrow> tref list \<Rightarrow> Protocol \<Rightarrow> Type \<times> Protocol" where
  "Enum n vs P =
     (case new_Type ''Enum'' n P of (T, P') \<Rightarrow> (T\<lparr>t_variants := vs\<rparr>, P'))"

text \<open>
  Modelled from the spec: \<^verbatim>\<open>Type.implement_trait\<close> is missing from the sources. The
  trait enters the object's trait dictionary under its name and its method signatures
  enter the object's method dictionary; implementation sets only grow.
\<close>

definition implement_trait :: "Type \<Rightarrow> Trait \<Rightarrow> Protocol \<Rightarrow> Protocol" where
  "implement_trait T tr P =
     P\<lparr>trait_dicts := (trait_dicts P)
          (t_traits T := (trait_dicts P (t_traits T))(trait_name tr \<mapsto> tr)),
       method_dicts := (method_dicts P)
          (t_methods T := foldl (\<lambda>m f. m(func_name f \<mapsto> f))
                            (method_dicts P (t_methods T)) (trait_methods tr))\<rparr>"

text \<open>
  Modelled from the spec: \<^verbatim>\<open>Expression.type()\<close> is missing from the sources. The
  static type of an expression follows section 4.2 of the specification: \<open>This\<close> has the
  enclosing structure type, a constant its declared type, a function invocation the
  function's return type, a field access the declared type of the named field of a
  structure, a method invocation the return type of the method of that name of its
  target's type, a conditional the common type of its branches under a Boolean
  condition; a context access is not supported.
\<close>

fun expr_type :: "Protocol \<Rightarrow> Expression \<Rightarrow> error + tref option" where
  "expr_type P (ThisExpression t) = Inr (Some t)"
| "expr_type P (ConstantExpression t v) = Inr (Some t)"
| "expr_type P (FunctionInvocationExpression f args) = Inr (return_type f)"
| "expr_type P (ContextAccessExpression f) = Inl UnsupportedConstruct"
| "expr_type P (FieldAccessExpression target f) =
     (case expr_type P target of
        Inl e \<Rightarrow> Inl e
      | Inr None \<Rightarrow> Inl TypeMismatch
      | Inr (Some t) \<Rightarrow>
          (case p_types P t of
             None \<Rightarrow> Inl UnknownReference
           | Some T \<Rightarrow>
               if t_kind T \<noteq> ''Struct'' then Inl TypeMismatch
               else (case find (\<lambda>fd. field_name fd = f) (t_fields T) of
                       None \<Rightarrow> Inl UnknownReference
                     | Some fd \<Rightarrow> Inr (Some (field_type fd)))))"
| "expr_type P (MethodInvocationExpression target m args) =
     (case expr_type P target of
        Inl e \<Rightarrow> Inl e
      | Inr None \<Rightarrow> Inl TypeMismatch
      | Inr (Some t) \<Rightarrow>
          (case p_types P t of
             None \<Rightarrow> Inl UnknownReference
           | Some T \<Rightarrow>
               (case method_dicts P (t_methods T) m of
                  None \<Rightarrow> Inl UnknownReference
                | Some fn \<Rightarrow> Inr (return_type fn))))"
| "expr_type P (IfElseExpression c a b) =
     (case expr_type P c of
        Inl e \<Rightarrow> Inl e
      | Inr tc \<Rightarrow>
          if tc \<noteq> Some ''Boolean'' then Inl TypeMismatch
          else (case expr_type P a of
                  Inl e \<Rightarrow> Inl e
                | Inr ta \<Rightarrow>
                    (case expr_type P b of
                       Inl e \<Rightarrow> Inl e
                     | Inr tb \<Rightarrow> if ta \<noteq> tb then Inl TypeMismatch else Inr ta)))"

subsection \<open>Input records\<close>

text \<open>
  The JSON-shaped records the constructors read. An expression record is keyed by its
  \<^verbatim>\<open>"expression"\<close> discriminator; \<open>Other_ir\<close> stands for any discriminator the parser
  does not know.
\<close>

datatype expr_ir =
    MethodInvocation_ir expr_ir string "(string \<times> expr_ir) list"
  | FunctionInvocation_ir string "(string \<times> expr_ir) list"
  | FieldAccess_ir expr_ir string
  | ContextAccess_ir string
  | IfElse_ir expr_ir expr_ir expr_ir
  | This_ir
  | Constant_ir string json_value
  | Other_ir string

record transform_ir =
  ir_into_name :: string
  ir_into_type :: string
  ir_using :: string

record field_ir =
  fld_name :: string
  fld_type :: string
  fld_is_present :: expr_ir
  fld_transform :: "transform_ir option"

record bitstring_ir =
  bs_construct :: string
  bs_name :: string
  bs_size :: int

record array_ir =
  ar_construct :: string
  ar_name :: string
  ar_element_type :: string
  ar_length :: int

record struct_ir =
  st_construct :: string
  st_name :: string
  st_fields :: "field_ir list"
  st_constraints :: "expr_ir list"
  st_actions :: "expr_ir list"

record enum_ir =
  en_construct :: string
  en_name :: string
  en_variants :: "string list"

record newtype_ir =
  nt_construct :: string
  nt_name :: string
  nt_derived_from :: string
  nt_implements :: "string list"

record function_ir =
  fn_construct :: string
  fn_name :: string
  fn_parameters :: "(string \<times> string) list"
  fn_return_type :: string

subsection \<open>Lookup\<close>

definition type_of :: "Protocol \<Rightarrow> string \<Rightarrow> error + Type" where
  "type_of P tname =
     (case p_types P tname of None \<Rightarrow> Inl UnknownReference | Some T \<Rightarrow> Inr T)"

definition func :: "Protocol \<Rightarrow> string \<Rightarrow> error + Function" where
  "func P fname =
     (case p_funcs P fname of None \<Rightarrow> Inl UnknownReference | Some f \<Rightarrow> Inr f)"

definition trait :: "Protocol \<Rightarrow> string \<Rightarrow> error + Trait" where
  "trait P tname =
     (case p_traits P tname of None \<Rightarrow> Inl UnknownReference | Some t \<Rightarrow> Inr t)"

subsection \<open>Private helper functions\<close>

definition validate_irtype ::
  "lexer \<Rightarrow> Protocol \<Rightarrow> string \<Rightarrow> string \<Rightarrow> string \<Rightarrow> error + unit" where
  "validate_irtype L P construct nm kind =
     (if construct \<noteq> kind then Inl UnsupportedConstruct
      else if nm \<in> dom (p_types P) then Inl DuplicateDefinition
      else if \<not> TYPE_NAME_REGEX L nm then Inl MalformedName
      else Inr ())"

fun parse_expression :: "Protocol \<Rightarrow> expr_ir \<Rightarrow> Type \<Rightarrow> error + Expression"
  and parse_arguments :: "Protocol \<Rightarrow> (string \<times> expr_ir) list \<Rightarrow> Type \<Rightarrow> error + Argument list"
where
  "parse_expression P (MethodInvocation_ir target method args) this =
     (if t_kind this \<noteq> ''Struct'' then Inl ScopeError
      else case parse_expression P target this of
             Inl e \<Rightarrow> Inl e
           | Inr target' \<Rightarrow>
               (case parse_arguments P args this of
                  Inl e \<Rightarrow> Inl e
                | Inr args' \<Rightarrow> Inr (MethodInvocationExpression target' method args')))"
| "parse_expression P (FunctionInvocation_ir nm args) this =
     (if t_kind this \<noteq> ''Struct'' then Inl ScopeError
      else case func P nm of
             Inl e \<Rightarrow> Inl e
           | Inr f \<Rightarrow>
               (case parse_arguments P args this of
                  Inl e \<Rightarrow> Inl e
                | Inr args' \<Rightarrow> Inr (FunctionInvocationExpression f args')))"
| "parse_expression P (FieldAccess_ir target field) this =
     (if t_kind this \<noteq> ''Struct'' then Inl ScopeError
      else case parse_expression P target this of
             Inl e \<Rightarrow> Inl e
           | Inr target' \<Rightarrow> Inr (FieldAccessExpression target' field))"
| "parse_expression P (ContextAccess_ir field) this =
     (if t_kind this \<noteq> ''Struct'' then Inl ScopeError
      else Inr (ContextAccessExpression field))"
| "parse_expression P (IfElse_ir condition if_true if_false) this =
     (if t_kind this \<noteq> ''Struct'' then Inl ScopeError
      else case parse_expression P condition this of
             Inl e \<Rightarrow> Inl e
           | Inr c \<Rightarrow>
               (case parse_expression P if_true this of
                  Inl e \<Rightarrow> Inl e
                | Inr a \<Rightarrow>
                    (case parse_expression P if_false this of
                       Inl e \<Rightarrow> Inl e
                     | Inr b \<Rightarrow> Inr (IfElseExpression c a b))))"
| "parse_expression P This_ir this =
     (if t_kind this \<noteq> ''Struct'' then Inl ScopeError
      else Inr (ThisExpression (t_name this)))"
| "parse_expression P (Constant_ir ty v) this =
     (if t_kind this \<noteq> ''Struct'' then Inl ScopeError
      else case type_of P ty of
             Inl e \<Rightarrow> Inl e
           | Inr T \<Rightarrow> Inr (ConstantExpression ty v))"
| "parse_expression P (Other_ir d) this =
     (if t_kind this \<noteq> ''Struct'' then Inl ScopeError
      else Inl UnsupportedExpression)"
| "parse_arguments P [] this = Inr []"
| "parse_arguments P ((nm, v) # args) this =
     (case parse_expression P v this of
        Inl e \<Rightarrow> Inl e
      | Inr expr \<Rightarrow>
          (case expr_type P expr of
             Inl e \<Rightarrow> Inl e
           | Inr ty \<Rightarrow>
               (case parse_arguments P args this of
                  Inl e \<Rightarrow> Inl e
                | Inr res \<Rightarrow> Inr (\<lparr>arg_name = nm, arg_type = ty\<rparr> # res))))"

definition parse_transform :: "Protocol \<Rightarrow> transform_ir option \<Rightarrow> error + Transform option" where
  "parse_transform P tr =
     (case tr of
        None \<Rightarrow> Inr None
      | Some t \<Rightarrow>
          (case type_of P (ir_into_type t) of
             Inl e \<Rightarrow> Inl e
           | Inr T \<Rightarrow>
               (case func P (ir_using t) of
                  Inl e \<Rightarrow> Inl e
                | Inr f \<Rightarrow>
                    Inr (Some \<lparr>into_name = ir_into_name t, into_type = ir_into_type t,
                               tr_using = f\<rparr>))))"

fun parse_fields :: "lexer \<Rightarrow> Protocol \<Rightarrow> field_ir list \<Rightarrow> Type \<Rightarrow> error + Field list" where
  "parse_fields L P [] this = Inr []"
| "parse_fields L P (field # more_fields) this =
     (if \<not> FUNC_NAME_REGEX L (fld_name field) then Inl MalformedName
      else case type_of P (fld_type field) of
             Inl e \<Rightarrow> Inl e
           | Inr T \<Rightarrow>
               (case parse_expression P (fld_is_present field) this of
                  Inl e \<Rightarrow> Inl e
                | Inr pres \<Rightarrow>
                    (case parse_transform P (fld_transform field) of
                       Inl e \<Rightarrow> Inl e
                     | Inr tr \<Rightarrow>
                         (case parse_fields L P more_fields this of
                            Inl e \<Rightarrow> Inl e
                          | Inr res \<Rightarrow>
                              Inr (\<lparr>field_name = fld_name field, field_type = fld_type field,
                                    is_present = pres, transform = tr\<rparr> # res)))))"

fun parse_constraints :: "Protocol \<Rightarrow> expr_ir list \<Rightarrow> Type \<Rightarrow> error + Expression list" where
  "parse_constraints P [] this = Inr []"
| "parse_constraints P (constraint # constraints) this =
     (case parse_expression P constraint this of
        Inl e \<Rightarrow> Inl e
      | Inr expr \<Rightarrow>
          (case expr_type P expr of
             Inl e \<Rightarrow> Inl e
           | Inr ty \<Rightarrow>
               (case type_of P ''Boolean'' of
                  Inl e \<Rightarrow> Inl e
                | Inr B \<Rightarrow>
                    if ty \<noteq> Some ''Boolean'' then Inl TypeMismatch
                    else (case parse_constraints P constraints this of
                            Inl e \<Rightarrow> Inl e
                          | Inr res \<Rightarrow> Inr (expr # res)))))"

fun parse_actions :: "Protocol \<Rightarrow> expr_ir list \<Rightarrow> Type \<Rightarrow> error + Expression list" where
  "parse_actions P [] this = Inr []"
| "parse_actions P (action # actions) this =
     (case parse_expression P action this of
        Inl e \<Rightarrow> Inl e
      | Inr expr \<Rightarrow>
          (case expr_type P expr of
             Inl e \<Rightarrow> Inl e
           | Inr ty \<Rightarrow>
               (case type_of P ''Nothing'' of
                  Inl e \<Rightarrow> Inl e
                | Inr N \<Rightarrow>
                    if ty \<noteq> Some ''Nothing'' then Inl TypeMismatch
                    else (case parse_actions P actions this of
                            Inl e \<Rightarrow> Inl e
                          | Inr res \<Rightarrow> Inr (expr # res)))))"

fun parse_variants :: "Protocol \<Rightarrow> string list \<Rightarrow> error + tref list" where
  "parse_variants P [] = Inr []"
| "parse_variants P (v # vs) =
     (case type_of P v of
        Inl e \<Rightarrow> Inl e
      | Inr T \<Rightarrow>
          (case parse_variants P vs of
             Inl e \<Rightarrow> Inl e
           | Inr res \<Rightarrow> Inr (v # res)))"

fun parse_parameters :: "Protocol \<Rightarrow> (string \<times> string) list \<Rightarrow> error + Parameter list" where
  "parse_parameters P [] = Inr []"
| "parse_parameters P ((nm, ty) # ps) =
     (case type_of P ty of
        Inl e \<Rightarrow> Inl e
      | Inr T \<Rightarrow>
          (case parse_parameters P ps of
             Inl e \<Rightarrow> Inl e
           | Inr res \<Rightarrow> Inr (\<lparr>param_name = nm, param_type = Some ty\<rparr> # res)))"

subsection \<open>Public API\<close>

text \<open>
  A constructor mutates the registry in place and may raise after it has done so: it
  returns the outcome together with the registry as the call leaves it.
\<close>

definition set_type :: "string \<Rightarrow> Type \<Rightarrow> Protocol \<Rightarrow> Protocol" where
  "set_type nm T P = P\<lparr>p_types := (p_types P)(nm \<mapsto> T)\<rparr>"

text \<open>
  Modelled from the spec: \<^verbatim>\<open>Struct.add_field\<close>, \<^verbatim>\<open>add_constraint\<close> and \<^verbatim>\<open>add_action\<close>
  are missing from the sources; each appends to the list it is named after.
\<close>

definition add_field :: "Type \<Rightarrow> Field \<Rightarrow> Type" where
  "add_field T f = T\<lparr>t_fields := t_fields T @ [f]\<rparr>"

definition add_constraint :: "Type \<Rightarrow> Expression \<Rightarrow> Type" where
  "add_constraint T c = T\<lparr>t_constraints := t_constraints T @ [c]\<rparr>"

definition add_action :: "Type \<Rightarrow> Expression \<Rightarrow> Type" where
  "add_action T a = T\<lparr>t_actions := t_actions T @ [a]\<rparr>"

text \<open>
  \<^verbatim>\<open>self._types[name].implement_trait(self.trait(n))\<close> for each name of a list in turn:
  the lookup of a trait that is not there raises after the earlier ones are implemented.
\<close>

fun implement_traits :: "Type \<Rightarrow> string list \<Rightarrow> Protocol \<Rightarrow> (error + unit) \<times> Protocol" where
  "implement_traits T [] P = (Inr (), P)"
| "implement_traits T (n # ns) P =
     (case trait P n of
        Inl e \<Rightarrow> (Inl e, P)
      | Inr tr \<Rightarrow> implement_traits T ns (implement_trait T tr P))"

definition define_bitstring :: "lexer \<Rightarrow> bitstring_ir \<Rightarrow> Protocol \<Rightarrow> (error + unit) \<times> Protocol" where
  "define_bitstring L irobj P =
     (case validate_irtype L P (bs_construct irobj) (bs_name irobj) ''BitString'' of
        Inl e \<Rightarrow> (Inl e, P)
      | Inr u \<Rightarrow>
          (case BitString (bs_name irobj) (bs_size irobj) P of
             (T, P') \<Rightarrow>
               implement_traits T [''Sized'', ''Value'', ''Equality'']
                 (set_type (bs_name irobj) T P')))"

definition define_array :: "lexer \<Rightarrow> array_ir \<Rightarrow> Protocol \<Rightarrow> (error + unit) \<times> Protocol" where
  "define_array L irobj P =
     (case validate_irtype L P (ar_construct irobj) (ar_name irobj) ''Array'' of
        Inl e \<Rightarrow> (Inl e, P)
      | Inr u \<Rightarrow>
          (case type_of P (ar_element_type irobj) of
             Inl e \<Rightarrow> (Inl e, P)
           | Inr element_type \<Rightarrow>
               (case Array (ar_name irobj) (ar_element_type irobj) element_type
                       (ar_length irobj) P of
                  (T, P') \<Rightarrow>
                    implement_traits T [''Sized'', ''Equality'', ''IndexCollection'']
                      (set_type (ar_name irobj) T P'))))"

text \<open>
  The stages of \<^verbatim>\<open>define_struct\<close>: the new, empty structure is bound to its name first;
  the parsed fields, constraints and actions are then added to the object bound there.
\<close>

definition register_struct :: "string \<Rightarrow> Protocol \<Rightarrow> Type \<times> Protocol" where
  "register_struct nm P = (case Struct nm P of (S0, P0) \<Rightarrow> (S0, set_type nm S0 P0))"

definition add_fields :: "string \<Rightarrow> Type \<Rightarrow> Field list \<Rightarrow> Protocol \<Rightarrow> Type \<times> Protocol" where
  "add_fields nm S fs P = (foldl add_field S fs, set_type nm (foldl add_field S fs) P)"

definition add_constraints :: "string \<Rightarrow> Type \<Rightarrow> Expression list \<Rightarrow> Protocol \<Rightarrow> Type \<times> Protocol" where
  "add_constraints nm S cs P =
     (foldl add_constraint S cs, set_type nm (foldl add_constraint S cs) P)"

definition add_actions :: "string \<Rightarrow> Type \<Rightarrow> Expression list \<Rightarrow> Protocol \<Rightarrow> Type \<times> Protocol" where
  "add_actions nm S as P = (foldl add_action S as, set_type nm (foldl add_action S as) P)"

definition define_struct :: "lexer \<Rightarrow> struct_ir \<Rightarrow> Protocol \<Rightarrow> (error + unit) \<times> Protocol" where
  "define_struct L irobj P =
     (case validate_irtype L P (st_construct irobj) (st_name irobj) ''Struct'' of
        Inl e \<Rightarrow> (Inl e, P)
      | Inr u \<Rightarrow>
          (case register_struct (st_name irobj) P of
             (S0, P1) \<Rightarrow>
               (case parse_fields L P1 (st_fields irobj) S0 of
                  Inl e \<Rightarrow> (Inl e, P1)
                | Inr fs \<Rightarrow>
                    (case add_fields (st_name irobj) S0 fs P1 of
                       (S1, P2) \<Rightarrow>
                         (case parse_constraints P2 (st_constraints irobj) S1 of
                            Inl e \<Rightarrow> (Inl e, P2)
                          | Inr cs \<Rightarrow>
                              (case add_constraints (st_name irobj) S1 cs P2 of
                                 (S2, P3) \<Rightarrow>
                                   (case parse_actions P3 (st_actions irobj) S2 of
                                      Inl e \<Rightarrow> (Inl e, P3)
                                    | Inr as \<Rightarrow>
                                        (case add_actions (st_name irobj) S2 as P3 of
                                           (S3, P4) \<Rightarrow>
                                             implement_traits S3 [''Sized'', ''Equality'']
                                               P4))))))))"

definition define_enum :: "lexer \<Rightarrow> enum_ir \<Rightarrow> Protocol \<Rightarrow> (error + unit) \<times> Protocol" where
  "define_enum L irobj P =
     (case validate_irtype L P (en_construct irobj) (en_name irobj) ''Enum'' of
        Inl e \<Rightarrow> (Inl e, P)
      | Inr u \<Rightarrow>
          (case parse_variants P (en_variants irobj) of
             Inl e \<Rightarrow> (Inl e, P)
           | Inr variants \<Rightarrow>
               (case Enum (en_name irobj) variants P of
                  (T, P') \<Rightarrow>
                    implement_traits T [''Sized''] (set_type (en_name irobj) T P'))))"

text \<open>
  \<^verbatim>\<open>copy(d)\<close> of a dictionary is a new dictionary object with the same entries.
\<close>

definition copy_traits :: "nat \<Rightarrow> Protocol \<Rightarrow> nat \<times> Protocol" where
  "copy_traits a P =
     (next_obj P,
      P\<lparr>trait_dicts := (trait_dicts P)(next_obj P := trait_dicts P a),
        next_obj := Suc (next_obj P)\<rparr>)"

definition copy_methods :: "nat \<Rightarrow> Protocol \<Rightarrow> nat \<times> Protocol" where
  "copy_methods a P =
     (next_obj P,
      P\<lparr>method_dicts := (method_dicts P)(next_obj P := method_dicts P a),
        next_obj := Suc (next_obj P)\<rparr>)"

definition derive_type :: "lexer \<Rightarrow> newtype_ir \<Rightarrow> Protocol \<Rightarrow> (error + unit) \<times> Protocol" where
  "derive_type L irobj P =
     (case validate_irtype L P (nt_construct irobj) (nt_name irobj) ''NewType'' of
        Inl e \<Rightarrow> (Inl e, P)
      | Inr u \<Rightarrow>
          (case type_of P (nt_derived_from irobj) of
             Inl e \<Rightarrow> (Inl e, P)
           | Inr orig_type \<Rightarrow>
               let nm = nt_name irobj;
                   P1 = set_type nm orig_type P;
                   D1 = orig_type\<lparr>t_name := nm\<rparr>;
                   P2 = set_type nm D1 P1
               in (case copy_traits (t_traits orig_type) P2 of
                     (ta, P3) \<Rightarrow>
                       let D2 = D1\<lparr>t_traits := ta\<rparr>;
                           P4 = set_type nm D2 P3
                       in (case copy_methods (t_methods orig_type) P4 of
                             (ma, P5) \<Rightarrow>
                               let D3 = D2\<lparr>t_methods := ma\<rparr>;
                                   P6 = set_type nm D3 P5
                               in implement_traits D3 (nt_implements irobj) P6))))"

definition define_function :: "lexer \<Rightarrow> function_ir \<Rightarrow> Protocol \<Rightarrow> (error + unit) \<times> Protocol" where
  "define_function L irobj P =
     (if fn_construct irobj \<noteq> ''Function'' then (Inl UnsupportedConstruct, P)
      else if fn_name irobj \<in> dom (p_funcs P) then (Inl DuplicateDefinition, P)
      else if \<not> FUNC_NAME_REGEX L (fn_name irobj) then (Inl MalformedName, P)
      else case parse_parameters P (fn_parameters irobj) of
             Inl e \<Rightarrow> (Inl e, P)
           | Inr params \<Rightarrow>
               (case type_of P (fn_return_type irobj) of
                  Inl e \<Rightarrow> (Inl e, P)
                | Inr T \<Rightarrow>
                    (Inr (),
                     P\<lparr>p_funcs := (p_funcs P)(fn_name irobj \<mapsto>
                          \<lparr>func_name = fn_name irobj, parameters = params,
                           return_type = Some (fn_return_type irobj)\<rparr>)\<rparr>)))"

definition define_context :: "Protocol \<Rightarrow> (error + unit) \<times> Protocol" where
  "define_context P = (Inl UnsupportedConstruct, P)"

definition typecheck :: "Protocol \<Rightarrow> (error + unit) \<times> Protocol" where
  "typecheck P = (Inl UnsupportedConstruct, P)"

subsection \<open>The initial registry\<close>

definition mkParameter :: "string \<Rightarrow> tref option \<Rightarrow> Parameter" where
  "mkParameter n t = \<lparr>param_name = n, param_type = t\<rparr>"

definition mkFunction :: "string \<Rightarrow> Parameter list \<Rightarrow> tref option \<Rightarrow> Function" where
  "mkFunction n ps r = \<lparr>func_name = n, parameters = ps, return_type = r\<rparr>"

definition mkTrait :: "string \<Rightarrow> Function list \<Rightarrow> Trait" where
  "mkTrait n ms = \<lparr>trait_name = n, trait_methods = ms\<rparr>"

definition standard_traits :: "(string \<times> Trait) list" where
  "standard_traits =
     [(''Value'', mkTrait ''Value''
         [mkFunction ''get'' [mkParameter ''self'' None] None,
          mkFunction ''set'' [mkParameter ''self'' None, mkParameter ''value'' None] None]),
      (''Sized'', mkTrait ''Sized''
         [mkFunction ''size'' [mkParameter ''self'' None] (Some ''Size'')]),
      (''IndexCollection'', mkTrait ''IndexCollection''
         [mkFunction ''get'' [mkParameter ''self'' None, mkParameter ''index'' (Some ''Size'')] None,
          mkFunction ''set'' [mkParameter ''self'' None, mkParameter ''index'' (Some ''Size''),
                              mkParameter ''value'' None] None,
          mkFunction ''length'' [mkParameter ''self'' None] (Some ''Size'')]),
      (''Equality'', mkTrait ''Equality''
         [mkFunction ''eq'' [mkParameter ''self'' None, mkParameter ''other'' None] (Some ''Boolean''),
          mkFunction ''ne'' [mkParameter ''self'' None, mkParameter ''other'' None] (Some ''Boolean'')]),
      (''Ordinal'', mkTrait ''Ordinal''
         [mkFunction ''lt'' [mkParameter ''self'' None, mkParameter ''other'' None] (Some ''Boolean''),
          mkFunction ''le'' [mkParameter ''self'' None, mkParameter ''other'' None] (Some ''Boolean''),
          mkFunction ''gt'' [mkParameter ''self'' None, mkParameter ''other'' None] (Some ''Boolean''),
          mkFunction ''ge'' [mkParameter ''self'' None, mkParameter ''other'' None] (Some ''Boolean'')]),
      (''BooleanOps'', mkTrait ''BooleanOps''
         [mkFunction ''and'' [mkParameter ''self'' None, mkParameter ''other'' None] (Some ''Boolean''),
          mkFunction ''or'' [mkParameter ''self'' None, mkParameter ''other'' None] (Some ''Boolean''),
          mkFunction ''not'' [mkParameter ''self'' None] (Some ''Boolean'')]),
      (''ArithmeticOps'', mkTrait ''ArithmeticOps''
         [mkFunction ''plus'' [mkParameter ''self'' None, mkParameter ''other'' None] None,
          mkFunction ''minus'' [mkParameter ''self'' None, mkParameter ''other'' None] None,
          mkFunction ''multiply'' [mkParameter ''self'' None] None,
          mkFunction ''divide'' [mkParameter ''self'' None] None,
          mkFunction ''modulo'' [mkParameter ''self'' None] None])]"

definition empty_Protocol :: Protocol where
  "empty_Protocol =
     \<lparr>p_types = Map.empty, p_traits = Map.empty, p_funcs = Map.empty,
      trait_dicts = (\<lambda>a. Map.empty), method_dicts = (\<lambda>a. Map.empty), next_obj = 0\<rparr>"

text \<open>A primitive type: \<^verbatim>\<open>self._types[n] = C()\<close> for one of the three built-in classes.\<close>

definition define_primitive :: "string \<Rightarrow> Protocol \<Rightarrow> Protocol" where
  "define_primitive n P = (case new_Type n n P of (T, P') \<Rightarrow> set_type n T P')"

text \<open>
  \<^verbatim>\<open>self._types[n].implement_trait(self.trait(tn))\<close> in the constructor, where both
  lookups are of names the constructor has just bound.
\<close>

definition implement_standard :: "string \<Rightarrow> string \<Rightarrow> Protocol \<Rightarrow> Protocol" where
  "implement_standard n tn P =
     (case (p_types P n, p_traits P tn) of
        (Some T, Some tr) \<Rightarrow> implement_trait T tr P
      | _ \<Rightarrow> P)"

definition Protocol_init :: Protocol where
  "Protocol_init =
     (let P1 = define_primitive ''Size''
                 (define_primitive ''Boolean'' (define_primitive ''Nothing'' empty_Protocol));
          P2 = P1\<lparr>p_traits := map_of standard_traits\<rparr>
      in foldl (\<lambda>P (n, tn). implement_standard n tn P) P2
           [(''Boolean'', ''Value''), (''Boolean'', ''Equality''), (''Boolean'', ''BooleanOps''),
            (''Size'', ''Value''), (''Size'', ''Equality''), (''Size'', ''Ordinal''),
            (''Size'', ''ArithmeticOps'')])"

subsection \<open>Well-formed registries\<close>

text \<open>
  Every trait of the registry is bound to its own name (the constructor binds them so
  and nothing rebinds them), and every dictionary a registered type refers to has been
  allocated.
\<close>

definition traits_named :: "Protocol \<Rightarrow> bool" where
  "traits_named P = (\<forall>k t. p_traits P k = Some t \<longrightarrow> trait_name t = k)"

definition store_wf :: "Protocol \<Rightarrow> bool" where
  "store_wf P =
     (\<forall>n T. p_types P n = Some T \<longrightarrow> t_traits T < next_obj P \<and> t_methods T < next_obj P)"

text \<open>
  What a call leaves of the registry \<open>P\<close> it started from, in the registry \<open>Q\<close> it ends in:
  the trait map and the function map, and every registered type with the contents of its
  two dictionaries.
\<close>

definition registered_intact :: "Protocol \<Rightarrow> Protocol \<Rightarrow> bool" where
  "registered_intact P Q =
     (p_traits Q = p_traits P \<and> p_funcs Q = p_funcs P \<and>
      (\<forall>n T. p_types P n = Some T \<longrightarrow>
         p_types Q n = Some T \<and>
         trait_dicts Q (t_traits T) = trait_dicts P (t_traits T) \<and>
         method_dicts Q (t_methods T) = method_dicts P (t_methods T)))"

text \<open>
  Every name bound in the type map and in the function map passes the validator of its
  category: the constructors bind a name only after they have validated it, so this holds
  of every registry they build from an initial registry whose three primitive names are
  type names.
\<close>

definition names_ok :: "lexer \<Rightarrow> Protocol \<Rightarrow> bool" where
  "names_ok L P =
     ((\<forall>n. n \<in> dom (p_types P) \<longrightarrow> TYPE_NAME_REGEX L n) \<and>
      (\<forall>n. n \<in> dom (p_funcs P) \<longrightarrow> FUNC_NAME_REGEX L n))"

section \<open>Dependency resolution (parse-ietf-doc.py)\<close>

subsection \<open>The object graph the traversal reads\<close>

text \<open>
  The traversal follows references between objects, and a reference may lead back to an
  object already on the way: the objects live in a store, a reference is an address, and
  \<^verbatim>\<open>None\<close> is \<open>None\<close>. Of each object the store keeps its class, its name and the references
  the traversal reads: the \<^verbatim>\<open>field_type\<close> of each field of a Struct or a Context, the
  \<^verbatim>\<open>element_type\<close> of an Array, the \<^verbatim>\<open>variants\<close>, \<^verbatim>\<open>parse_from\<close> and \<^verbatim>\<open>serialise_to\<close> of an
  Enum, the \<^verbatim>\<open>param_type\<close> of each parameter and the \<^verbatim>\<open>return_type\<close> of a Function.
  \<open>POther\<close> is an object of any other class (a BitString, for one).
\<close>

type_synonym addr = nat

type_synonym ref = "addr option"

datatype ProtocolType =
    PStruct string "ref list"
  | PArray string ref
  | PEnum string "ref list" ref ref
  | PFunction string "ref list" ref
  | PContext string "ref list"
  | POther string

fun pt_name :: "ProtocolType \<Rightarrow> string" where
  "pt_name (PStruct n fs) = n"
| "pt_name (PArray n el) = n"
| "pt_name (PEnum n vs pf st) = n"
| "pt_name (PFunction n ps rt) = n"
| "pt_name (PContext n fs) = n"
| "pt_name (POther n) = n"

type_synonym store = "addr \<Rightarrow> ProtocolType"

text \<open>
  Modelled from the spec: \<^verbatim>\<open>Protocol.get_pdu_names\<close> and \<^verbatim>\<open>Protocol.get_pdu\<close> are missing
  from the sources. The protocol data units are the roots of the traversal: \<open>pdus\<close> lists
  the objects that \<^verbatim>\<open>get_pdu\<close> returns for the names of \<^verbatim>\<open>get_pdu_names\<close>, in their order.
\<close>

record pdu_protocol =
  objects :: store
  pdus :: "ref list"

subsection \<open>The traversal\<close>

text \<open>
  The two ways the traversal raises: \<^verbatim>\<open>dfs_context\<close> calls \<^verbatim>\<open>dfs_protocoltype\<close> with one
  argument (a \<^verbatim>\<open>TypeError\<close>), and \<^verbatim>\<open>dfs_function\<close> reads the name of a parameter or return
  type that is \<^verbatim>\<open>None\<close> (an \<^verbatim>\<open>AttributeError\<close>).
\<close>

datatype dfs_error = MissingArgument | NoneHasNoName

text \<open>
  The recursion of the source is not bounded by its arguments. The first argument of
  each function is the depth of calls of \<^verbatim>\<open>dfs_protocoltype\<close> still allowed: a call at
  depth \<open>0\<close> does not return, which is the value \<open>None\<close>. A result \<open>Some (Inr names)\<close> is
  the list \<^verbatim>\<open>type_names\<close> as the call leaves it; \<open>Some (Inl e)\<close> is an exception.
\<close>

type_synonym dfs_result = "(dfs_error + string list) option"

function dfs_protocoltype :: "nat \<Rightarrow> store \<Rightarrow> ref \<Rightarrow> string list \<Rightarrow> dfs_result"
  and dfs_struct :: "nat \<Rightarrow> store \<Rightarrow> ref list \<Rightarrow> string list \<Rightarrow> dfs_result"
  and dfs_array :: "nat \<Rightarrow> store \<Rightarrow> ref \<Rightarrow> string list \<Rightarrow> dfs_result"
  and dfs_enum :: "nat \<Rightarrow> store \<Rightarrow> string \<Rightarrow> ref list \<Rightarrow> ref \<Rightarrow> ref \<Rightarrow> string list \<Rightarrow> dfs_result"
  and dfs_function :: "nat \<Rightarrow> store \<Rightarrow> ref list \<Rightarrow> ref \<Rightarrow> string list \<Rightarrow> dfs_result"
  and dfs_context :: "nat \<Rightarrow> store \<Rightarrow> ref list \<Rightarrow> string list \<Rightarrow> dfs_result"
where
  "dfs_protocoltype 0 h pt type_names = None"
| "dfs_protocoltype (Suc d) h None type_names = Some (Inr type_names)"
| "dfs_protocoltype (Suc d) h (Some a) type_names =
     (case (case h a of
              PStruct n fs \<Rightarrow> dfs_struct d h fs type_names
            | PArray n el \<Rightarrow> dfs_array d h el type_names
            | PEnum n vs pf st \<Rightarrow> dfs_enum d h n vs pf st type_names
            | PFunction n ps rt \<Rightarrow> dfs_function d h ps rt type_names
            | PContext n fs \<Rightarrow> dfs_context d h fs type_names
            | POther n \<Rightarrow> Some (Inr type_names)) of
        None \<Rightarrow> None
      | Some (Inl e) \<Rightarrow> Some (Inl e)
      | Some (Inr names) \<Rightarrow> Some (Inr (names @ [pt_name (h a)])))"
| "dfs_struct d h [] type_names = Some (Inr type_names)"
| "dfs_struct d h (ftype # more_fields) type_names =
     (case dfs_protocoltype d h ftype type_names of
        None \<Rightarrow> None
      | Some (Inl e) \<Rightarrow> Some (Inl e)
      | Some (Inr names) \<Rightarrow> dfs_struct d h more_fields names)"
| "dfs_array d h element_type type_names = dfs_protocoltype d h element_type type_names"
| "dfs_enum d h n [] parse_from serialise_to type_names =
     (case dfs_protocoltype d h parse_from (type_names @ [n]) of
        None \<Rightarrow> None
      | Some (Inl e) \<Rightarrow> Some (Inl e)
      | Some (Inr names) \<Rightarrow> dfs_protocoltype d h serialise_to names)"
| "dfs_enum d h n (variant # variants) parse_from serialise_to type_names =
     (case dfs_protocoltype d h variant type_names of
        None \<Rightarrow> None
      | Some (Inl e) \<Rightarrow> Some (Inl e)
      | Some (Inr names) \<Rightarrow> dfs_enum d h n variants parse_from serialise_to names)"
| "dfs_function d h [] rtype type_names =
     (case rtype of
        None \<Rightarrow> Some (Inl NoneHasNoName)
      | Some r \<Rightarrow>
          if pt_name (h r) \<notin> set type_names
          then dfs_protocoltype d h rtype type_names
          else Some (Inr type_names))"
| "dfs_function d h (ptype # more_params) rtype type_names =
     (case ptype of
        None \<Rightarrow> Some (Inl NoneHasNoName)
      | Some p \<Rightarrow>
          if pt_name (h p) \<notin> set type_names
          then (case dfs_protocoltype d h ptype type_names of
                  None \<Rightarrow> None
                | Some (Inl e) \<Rightarrow> Some (Inl e)
                | Some (Inr names) \<Rightarrow> dfs_function d h more_params rtype names)
          else dfs_function d h more_params rtype type_names)"
| "dfs_context d h [] type_names = Some (Inr type_names)"
| "dfs_context d h (ftype # more_fields) type_names = Some (Inl MissingArgument)"
  by pat_completeness auto
termination
  by (relation "measures
       [\<lambda>x. case x of
              Inl (Inl (d, h, pt, acc)) \<Rightarrow> 2 * d
            | Inl (Inr (Inl (d, h, fs, acc))) \<Rightarrow> 2 * d + 1
            | Inl (Inr (Inr (d, h, el, acc))) \<Rightarrow> 2 * d + 1
            | Inr (Inl (d, h, n, vs, pf, st, acc)) \<Rightarrow> 2 * d + 1
            | Inr (Inr (Inl (d, h, ps, rt, acc))) \<Rightarrow> 2 * d + 1
            | Inr (Inr (Inr (d, h, fs, acc))) \<Rightarrow> 2 * d + 1,
        \<lambda>x. case x of
              Inl (Inl (d, h, pt, acc)) \<Rightarrow> 0
            | Inl (Inr (Inl (d, h, fs, acc))) \<Rightarrow> length fs
            | Inl (Inr (Inr (d, h, el, acc))) \<Rightarrow> 0
            | Inr (Inl (d, h, n, vs, pf, st, acc)) \<Rightarrow> length vs
            | Inr (Inr (Inl (d, h, ps, rt, acc))) \<Rightarrow> length ps
            | Inr (Inr (Inr (d, h, fs, acc))) \<Rightarrow> 0]") auto

text \<open>The loop of \<^verbatim>\<open>dfs_protocol\<close> over the protocol data units.\<close>

fun dfs_pdus :: "nat \<Rightarrow> store \<Rightarrow> ref list \<Rightarrow> string list \<Rightarrow> dfs_result" where
  "dfs_pdus d h [] type_names = Some (Inr type_names)"
| "dfs_pdus d h (pdu # more_pdus) type_names =
     (case dfs_protocoltype d h pdu type_names of
        None \<Rightarrow> None
      | Some (Inl e) \<Rightarrow> Some (Inl e)
      | Some (Inr names) \<Rightarrow> dfs_pdus d h more_pdus names)"

text \<open>The second loop: a name is kept where it occurs first.\<close>

fun dedupe :: "string list \<Rightarrow> string list \<Rightarrow> string list" where
  "dedupe type_names_dedupe [] = type_names_dedupe"
| "dedupe type_names_dedupe (type_name # type_names) =
     (if type_name \<notin> set type_names_dedupe
      then dedupe (type_names_dedupe @ [type_name]) type_names
      else dedupe type_names_dedupe type_names)"

definition dfs_protocol :: "nat \<Rightarrow> pdu_protocol \<Rightarrow> dfs_result" where
  "dfs_protocol d protocol =
     (case dfs_pdus d (objects protocol) (pdus protocol) [] of
        None \<Rightarrow> None
      | Some (Inl e) \<Rightarrow> Some (Inl e)
      | Some (Inr type_names) \<Rightarrow> Some (Inr (dedupe [] type_names)))"

subsection \<open>The order of two names in a list\<close>


subsection \<open>The reference graph\<close>

text \<open>
  The references the traversal may follow from an object, in the order in which it
  reads them, and those among them that it follows whatever \<^verbatim>\<open>type_names\<close> holds: it
  descends into a parameter type or the return type of a Function only if the name of
  that type is not yet in the list, and it follows no reference of a Context.
\<close>

fun refs :: "ProtocolType \<Rightarrow> ref list" where
  "refs (PStruct n fs) = fs"
| "refs (PArray n el) = [el]"
| "refs (PEnum n vs pf st) = vs @ [pf, st]"
| "refs (PFunction n ps rt) = ps @ [rt]"
| "refs (PContext n fs) = fs"
| "refs (POther n) = []"

fun direct_refs :: "ProtocolType \<Rightarrow> ref list" where
  "direct_refs (PStruct n fs) = fs"
| "direct_refs (PArray n el) = [el]"
| "direct_refs (PEnum n vs pf st) = vs @ [pf, st]"
| "direct_refs (PFunction n ps rt) = []"
| "direct_refs (PContext n fs) = []"
| "direct_refs (POther n) = []"

definition edges :: "store \<Rightarrow> (addr \<times> addr) set" where
  "edges h = {(a, b). Some b \<in> set (refs (h a))}"

definition direct_edges :: "store \<Rightarrow> (addr \<times> addr) set" where
  "direct_edges h = {(a, b). Some b \<in> set (direct_refs (h a))}"

text \<open>The objects a protocol's data units reach.\<close>

definition reachable :: "pdu_protocol \<Rightarrow> addr set" where
  "reachable P = (edges (objects P))\<^sup>* `` {a. Some a \<in> set (pdus P)}"

text \<open>
  The objects at which the traversal raises: a Context with a field, and a Function with
  a parameter type or a return type that is \<^verbatim>\<open>None\<close>.
\<close>

fun raises :: "ProtocolType \<Rightarrow> bool" where
  "raises (PContext n fs) = (fs \<noteq> [])"
| "raises (PFunction n ps rt) = (None \<in> set ps \<or> rt = None)"
| "raises p = False"

text \<open>
  A data unit reaches, by references the traversal always follows, an object that such
  references lead back to itself.
\<close>

definition direct_cycle :: "pdu_protocol \<Rightarrow> bool" where
  "direct_cycle P =
     (\<exists>r c. Some r \<in> set (pdus P) \<and> (r, c) \<in> (direct_edges (objects P))\<^sup>* \<and>
            (c, c) \<in> (direct_edges (objects P))\<^sup>+)"

section \<open>Example inputs\<close>

text \<open>
  A lexer for the examples: a type name starts with an upper-case letter, a function or
  field name with a lower-case one.
\<close>

definition sample_lexer :: lexer where
  "sample_lexer =
     \<lparr>TYPE_NAME_REGEX = (\<lambda>s. case s of [] \<Rightarrow> False
                                | c # cs \<Rightarrow> c \<in> set ''ABCDEFGHIJKLMNOPQRSTUVWXYZ''),
      FUNC_NAME_REGEX = (\<lambda>s. case s of [] \<Rightarrow> False
                                | c # cs \<Rightarrow> c \<in> set ''abcdefghijklmnopqrstuvwxyz'')\<rparr>"

text \<open>A Type object with no attribute set but its kind, its name and its dictionaries.\<close>

definition prim :: "string \<Rightarrow> string \<Rightarrow> nat \<Rightarrow> Type" where
  "prim k n a =
     \<lparr>t_kind = k, t_name = n, t_traits = a, t_methods = Suc a,
      t_size = None, t_element_type = None, t_length = None,
      t_fields = [], t_constraints = [], t_actions = [], t_variants = []\<rparr>"

text \<open>
  Two structures on the initial registry: one whose only constraint is a constant of
  type \<open>Size\<close>, one whose only action is a constant of type \<open>Boolean\<close>.
\<close>

definition size_constraint_struct :: struct_ir where
  "size_constraint_struct =
     \<lparr>st_construct = ''Struct'', st_name = ''TestStruct'', st_fields = [],
      st_constraints = [Constant_ir ''Size'' (JInt 2)], st_actions = []\<rparr>"

definition boolean_action_struct :: struct_ir where
  "boolean_action_struct =
     \<lparr>st_construct = ''Struct'', st_name = ''TestStruct'', st_fields = [],
      st_constraints = [], st_actions = [Constant_ir ''Boolean'' (JStr ''True'')]\<rparr>"

text \<open>
  The bit string and the array of the repository's unit test \<^verbatim>\<open>test_define_array\<close>, and
  a structure with one field whose declared type is the structure itself.
\<close>

definition ssrc_ir :: bitstring_ir where
  "ssrc_ir = \<lparr>bs_construct = ''BitString'', bs_name = ''SSRC'', bs_size = 32\<rparr>"

definition csrc_list_ir :: array_ir where
  "csrc_list_ir =
     \<lparr>ar_construct = ''Array'', ar_name = ''CSRCList'', ar_element_type = ''SSRC'',
      ar_length = 4\<rparr>"

definition self_field :: "string \<Rightarrow> string \<Rightarrow> string \<Rightarrow> json_value \<Rightarrow> field_ir" where
  "self_field f nm b v =
     \<lparr>fld_name = f, fld_type = nm, fld_is_present = Constant_ir b v, fld_transform = None\<rparr>"

definition linked_list_ir :: struct_ir where
  "linked_list_ir =
     \<lparr>st_construct = ''Struct'', st_name = ''Node'',
      st_fields = [self_field ''next'' ''Node'' ''Boolean'' (JStr ''True'')],
      st_constraints = [], st_actions = []\<rparr>"

text \<open>A structure with a field of a type that is not registered.\<close>

definition dangling_struct_ir :: struct_ir where
  "dangling_struct_ir =
     \<lparr>st_construct = ''Struct'', st_name = ''Packet'',
      st_fields = [self_field ''payload'' ''Missing'' ''Boolean'' (JStr ''True'')],
      st_constraints = [], st_actions = []\<rparr>"

text \<open>
  Calls that fail on the initial registry: a bit string with a malformed name, an enum
  with an unregistered variant, a function with an unregistered return type, and a
  derived type that asks for a trait the registry does not have.
\<close>

definition octet_ir :: bitstring_ir where
  "octet_ir = \<lparr>bs_construct = ''BitString'', bs_name = ''octet'', bs_size = 8\<rparr>"

definition dangling_enum_ir :: enum_ir where
  "dangling_enum_ir =
     \<lparr>en_construct = ''Enum'', en_name = ''Choice'', en_variants = [''Boolean'', ''Missing'']\<rparr>"

definition dangling_function_ir :: function_ir where
  "dangling_function_ir =
     \<lparr>fn_construct = ''Function'', fn_name = ''convert'',
      fn_parameters = [(''x'', ''Size'')], fn_return_type = ''Missing''\<rparr>"

definition hashable_ir :: newtype_ir where
  "hashable_ir =
     \<lparr>nt_construct = ''NewType'', nt_name = ''Flag'', nt_derived_from = ''Boolean'',
      nt_implements = [''Ordinal'', ''Hashable'']\<rparr>"

text \<open>The bit string and the derived type of the unit test \<^verbatim>\<open>test_derive_type\<close>.\<close>

definition bits16_ir :: bitstring_ir where
  "bits16_ir = \<lparr>bs_construct = ''BitString'', bs_name = ''Bits16'', bs_size = 16\<rparr>"

definition seqnum_ir :: newtype_ir where
  "seqnum_ir =
     \<lparr>nt_construct = ''NewType'', nt_name = ''SeqNum'', nt_derived_from = ''Bits16'',
      nt_implements = [''Ordinal'']\<rparr>"


definition enum_protocol :: pdu_protocol where
  "enum_protocol =
     \<lparr>objects = (\<lambda>a. if a = 0 then PEnum ''E'' [] (Some 1) None
                      else PFunction ''f'' [] (Some 0)),
      pdus = [Some 0]\<rparr>"

definition list_protocol :: pdu_protocol where
  "list_protocol = \<lparr>objects = (\<lambda>a. PStruct ''Node'' [Some 0]), pdus = [Some 0]\<rparr>"

section \<open>Properties of the registry\<close>

subsection \<open>What each step leaves alone\<close>

lemma implement_trait_frame [simp]:
  "p_types (implement_trait T tr P) = p_types P"
  "p_traits (implement_trait T tr P) = p_traits P"
  "p_funcs (implement_trait T tr P) = p_funcs P"
  "next_obj (implement_trait T tr P) = next_obj P"
  by (simp_all add: implement_trait_def)

lemma implement_traits_frame [simp]:
  "p_types (snd (implement_traits T ns P)) = p_types P"
  "p_traits (snd (implement_traits T ns P)) = p_traits P"
  "p_funcs (snd (implement_traits T ns P)) = p_funcs P"
  "next_obj (snd (implement_traits T ns P)) = next_obj P"
  by (induction ns arbitrary: P; simp add: trait_def split: option.splits)+

lemma set_type_simps [simp]:
  "p_types (set_type nm T P) = (p_types P)(nm \<mapsto> T)"
  "p_traits (set_type nm T P) = p_traits P"
  "p_funcs (set_type nm T P) = p_funcs P"
  "trait_dicts (set_type nm T P) = trait_dicts P"
  "method_dicts (set_type nm T P) = method_dicts P"
  "next_obj (set_type nm T P) = next_obj P"
  by (simp_all add: set_type_def)

lemma new_Type_simps [simp]:
  "fst (new_Type k n P) = prim k n (next_obj P)"
  "p_types (snd (new_Type k n P)) = p_types P"
  "p_traits (snd (new_Type k n P)) = p_traits P"
  "p_funcs (snd (new_Type k n P)) = p_funcs P"
  "next_obj (snd (new_Type k n P)) = Suc (Suc (next_obj P))"
  "trait_dicts (snd (new_Type k n P)) = (trait_dicts P)(next_obj P := Map.empty)"
  "method_dicts (snd (new_Type k n P)) = (method_dicts P)(Suc (next_obj P) := Map.empty)"
  by (simp_all add: new_Type_def prim_def)

lemma implement_standard_frame [simp]:
  "p_types (implement_standard n tn P) = p_types P"
  "p_traits (implement_standard n tn P) = p_traits P"
  "p_funcs (implement_standard n tn P) = p_funcs P"
  "next_obj (implement_standard n tn P) = next_obj P"
  by (simp_all add: implement_standard_def split: option.splits)

subsection \<open>The initial registry\<close>

lemma Protocol_init_types:
  "p_types Protocol_init =
     [''Nothing'' \<mapsto> prim ''Nothing'' ''Nothing'' 0,
      ''Boolean'' \<mapsto> prim ''Boolean'' ''Boolean'' 2,
      ''Size'' \<mapsto> prim ''Size'' ''Size'' 4]"
  by (simp add: Protocol_init_def Let_def define_primitive_def split_beta empty_Protocol_def
        numeral_2_eq_2 eval_nat_numeral)

lemma Protocol_init_traits: "p_traits Protocol_init = map_of standard_traits"
  by (simp add: Protocol_init_def Let_def)

lemma Protocol_init_funcs: "p_funcs Protocol_init = Map.empty"
  by (simp add: Protocol_init_def Let_def define_primitive_def split_beta empty_Protocol_def)

lemma Protocol_init_next: "next_obj Protocol_init = 6"
  by (simp add: Protocol_init_def Let_def define_primitive_def split_beta empty_Protocol_def)

lemma standard_trait_lookup:
  "map_of standard_traits ''Sized'' =
     Some (mkTrait ''Sized'' [mkFunction ''size'' [mkParameter ''self'' None] (Some ''Size'')])"
  "map_of standard_traits ''Equality'' =
     Some (mkTrait ''Equality''
       [mkFunction ''eq'' [mkParameter ''self'' None, mkParameter ''other'' None] (Some ''Boolean''),
        mkFunction ''ne'' [mkParameter ''self'' None, mkParameter ''other'' None] (Some ''Boolean'')])"
  "map_of standard_traits ''Value'' =
     Some (mkTrait ''Value''
       [mkFunction ''get'' [mkParameter ''self'' None] None,
        mkFunction ''set'' [mkParameter ''self'' None, mkParameter ''value'' None] None])"
  "map_of standard_traits ''Ordinal'' =
     Some (mkTrait ''Ordinal''
       [mkFunction ''lt'' [mkParameter ''self'' None, mkParameter ''other'' None] (Some ''Boolean''),
        mkFunction ''le'' [mkParameter ''self'' None, mkParameter ''other'' None] (Some ''Boolean''),
        mkFunction ''gt'' [mkParameter ''self'' None, mkParameter ''other'' None] (Some ''Boolean''),
        mkFunction ''ge'' [mkParameter ''self'' None, mkParameter ''other'' None] (Some ''Boolean'')])"
  by (simp_all add: standard_traits_def)

lemma standard_trait_dom:
  "dom (map_of standard_traits) =
     {''Value'', ''Sized'', ''IndexCollection'', ''Equality'', ''Ordinal'', ''BooleanOps'',
      ''ArithmeticOps''}"
  by (auto simp: standard_traits_def dom_map_of_conv_image_fst)

lemma sample_lexer_simps [simp]:
  "TYPE_NAME_REGEX sample_lexer (c # cs) = (c \<in> set ''ABCDEFGHIJKLMNOPQRSTUVWXYZ'')"
  "FUNC_NAME_REGEX sample_lexer (c # cs) = (c \<in> set ''abcdefghijklmnopqrstuvwxyz'')"
  "TYPE_NAME_REGEX sample_lexer [] = False"
  "FUNC_NAME_REGEX sample_lexer [] = False"
  by (simp_all add: sample_lexer_def)


subsection \<open>The stages of a structure definition\<close>

lemma register_struct_simps [simp]:
  "fst (register_struct nm P) = prim ''Struct'' nm (next_obj P)"
  "p_types (snd (register_struct nm P)) = (p_types P)(nm \<mapsto> prim ''Struct'' nm (next_obj P))"
  "p_traits (snd (register_struct nm P)) = p_traits P"
  "p_funcs (snd (register_struct nm P)) = p_funcs P"
  "next_obj (snd (register_struct nm P)) = Suc (Suc (next_obj P))"
  "trait_dicts (snd (register_struct nm P)) = (trait_dicts P)(next_obj P := Map.empty)"
  "method_dicts (snd (register_struct nm P)) = (method_dicts P)(Suc (next_obj P) := Map.empty)"
  by (simp_all add: register_struct_def Struct_def split_beta)

lemma add_stage_simps [simp]:
  "fst (add_fields nm S fs P) = foldl add_field S fs"
  "snd (add_fields nm S fs P) = set_type nm (foldl add_field S fs) P"
  "fst (add_constraints nm S cs P) = foldl add_constraint S cs"
  "snd (add_constraints nm S cs P) = set_type nm (foldl add_constraint S cs) P"
  "fst (add_actions nm S as P) = foldl add_action S as"
  "snd (add_actions nm S as P) = set_type nm (foldl add_action S as) P"
  by (simp_all add: add_fields_def add_constraints_def add_actions_def)


subsection \<open>Implementing a list of traits\<close>

lemma implement_traits_ok:
  "set ns \<subseteq> dom (p_traits P) \<Longrightarrow> fst (implement_traits T ns P) = Inr ()"
  by (induction ns arbitrary: P) (auto simp: trait_def split: option.splits)

lemma implement_trait_dicts:
  "trait_dicts (implement_trait T tr P) (t_traits T) =
     (trait_dicts P (t_traits T))(trait_name tr \<mapsto> tr)"
  "a \<noteq> t_traits T \<Longrightarrow> trait_dicts (implement_trait T tr P) a = trait_dicts P a"
  "b \<noteq> t_methods T \<Longrightarrow> method_dicts (implement_trait T tr P) b = method_dicts P b"
  by (simp_all add: implement_trait_def)

lemma traits_named_implement_trait [simp]:
  "traits_named (implement_trait T tr P) = traits_named P"
  by (simp add: traits_named_def)

lemma implement_traits_dom:
  "fst (implement_traits T ns P) = Inr () \<Longrightarrow> traits_named P \<Longrightarrow>
   dom (trait_dicts (snd (implement_traits T ns P)) (t_traits T)) =
     dom (trait_dicts P (t_traits T)) \<union> set ns"
proof (induction ns arbitrary: P)
  case Nil
  then show ?case by simp
next
  case (Cons n ns)
  from Cons.prems obtain tr where tr: "p_traits P n = Some tr"
    by (auto simp: trait_def split: option.splits)
  with Cons.prems have nm: "trait_name tr = n" by (simp add: traits_named_def)
  from Cons.prems tr have "fst (implement_traits T ns (implement_trait T tr P)) = Inr ()"
    by (simp add: trait_def)
  from Cons.IH [OF this] Cons.prems(2) tr nm show ?case
    by (auto simp: trait_def implement_trait_dicts)
qed

lemma implement_traits_other:
  "a \<noteq> t_traits T \<Longrightarrow>
     trait_dicts (snd (implement_traits T ns P)) a = trait_dicts P a"
  "b \<noteq> t_methods T \<Longrightarrow>
     method_dicts (snd (implement_traits T ns P)) b = method_dicts P b"
  by (induction ns arbitrary: P; simp add: trait_def implement_trait_dicts split: option.splits)+

declare implement_traits.simps [simp del]

subsection \<open>The constructors of the type objects\<close>

lemma constructor_frame [simp]:
  "p_types (snd (BitString n sz P)) = p_types P"
  "p_traits (snd (BitString n sz P)) = p_traits P"
  "p_funcs (snd (BitString n sz P)) = p_funcs P"
  "next_obj (snd (BitString n sz P)) = Suc (Suc (next_obj P))"
  "p_types (snd (Array n el E len P)) = p_types P"
  "p_traits (snd (Array n el E len P)) = p_traits P"
  "p_funcs (snd (Array n el E len P)) = p_funcs P"
  "next_obj (snd (Array n el E len P)) = Suc (Suc (next_obj P))"
  "p_types (snd (Enum n vs P)) = p_types P"
  "p_traits (snd (Enum n vs P)) = p_traits P"
  "p_funcs (snd (Enum n vs P)) = p_funcs P"
  "next_obj (snd (Enum n vs P)) = Suc (Suc (next_obj P))"
  by (simp_all add: BitString_def Array_def Enum_def split_beta)

lemma constructor_store [simp]:
  "trait_dicts (snd (BitString n sz P)) = (trait_dicts P)(next_obj P := Map.empty)"
  "method_dicts (snd (BitString n sz P)) = (method_dicts P)(Suc (next_obj P) := Map.empty)"
  "trait_dicts (snd (Array n el E len P)) = (trait_dicts P)(next_obj P := Map.empty)"
  "method_dicts (snd (Array n el E len P)) = (method_dicts P)(Suc (next_obj P) := Map.empty)"
  "trait_dicts (snd (Enum n vs P)) = (trait_dicts P)(next_obj P := Map.empty)"
  "method_dicts (snd (Enum n vs P)) = (method_dicts P)(Suc (next_obj P) := Map.empty)"
  by (simp_all add: BitString_def Array_def Enum_def split_beta)

lemma constructor_object [simp]:
  "fst (BitString n sz P) = (prim ''BitString'' n (next_obj P))\<lparr>t_size := Some sz\<rparr>"
  "fst (Array n el E len P) =
     (prim ''Array'' n (next_obj P))
       \<lparr>t_element_type := Some el, t_length := Some len,
        t_size := (case t_size E of None \<Rightarrow> None | Some s \<Rightarrow> Some (s * len))\<rparr>"
  "fst (Enum n vs P) = (prim ''Enum'' n (next_obj P))\<lparr>t_variants := vs\<rparr>"
  by (simp_all add: BitString_def Array_def Enum_def split_beta)

lemma prim_simps [simp]:
  "t_kind (prim k n a) = k" "t_name (prim k n a) = n"
  "t_traits (prim k n a) = a" "t_methods (prim k n a) = Suc a"
  "t_size (prim k n a) = None" "t_fields (prim k n a) = []"
  "t_constraints (prim k n a) = []" "t_actions (prim k n a) = []"
  "t_variants (prim k n a) = []" "t_element_type (prim k n a) = None"
  "t_length (prim k n a) = None"
  by (simp_all add: prim_def)

lemma traits_named_init: "traits_named Protocol_init"
  by (auto simp: traits_named_def Protocol_init_traits standard_traits_def mkTrait_def
        split: if_splits)

subsection \<open>Successful definitions\<close>

lemma define_bitstring_ok:
  assumes "bs_construct b = ''BitString''" and "bs_name b \<notin> dom (p_types P)"
    and "TYPE_NAME_REGEX L (bs_name b)"
    and "{''Sized'', ''Value'', ''Equality''} \<subseteq> dom (p_traits P)"
  shows "fst (define_bitstring L b P) = Inr ()"
    and "p_types (snd (define_bitstring L b P)) =
           (p_types P)(bs_name b \<mapsto>
              (prim ''BitString'' (bs_name b) (next_obj P))\<lparr>t_size := Some (bs_size b)\<rparr>)"
    and "p_traits (snd (define_bitstring L b P)) = p_traits P"
    and "p_funcs (snd (define_bitstring L b P)) = p_funcs P"
    and "next_obj (snd (define_bitstring L b P)) = Suc (Suc (next_obj P))"
  using assms
  by (simp_all add: define_bitstring_def validate_irtype_def split_beta implement_traits_ok)

subsection \<open>Adding to a structure, copying a dictionary\<close>

lemma foldl_add_field_keeps [simp]:
  "t_traits (foldl add_field S fs) = t_traits S"
  "t_methods (foldl add_field S fs) = t_methods S"
  "t_kind (foldl add_field S fs) = t_kind S"
  "t_name (foldl add_field S fs) = t_name S"
  by (induction fs arbitrary: S; simp add: add_field_def)+

lemma foldl_add_constraint_keeps [simp]:
  "t_traits (foldl add_constraint S cs) = t_traits S"
  "t_methods (foldl add_constraint S cs) = t_methods S"
  "t_kind (foldl add_constraint S cs) = t_kind S"
  "t_name (foldl add_constraint S cs) = t_name S"
  "t_fields (foldl add_constraint S cs) = t_fields S"
  by (induction cs arbitrary: S; simp add: add_constraint_def)+

lemma foldl_add_action_keeps [simp]:
  "t_traits (foldl add_action S as) = t_traits S"
  "t_methods (foldl add_action S as) = t_methods S"
  "t_kind (foldl add_action S as) = t_kind S"
  "t_name (foldl add_action S as) = t_name S"
  "t_fields (foldl add_action S as) = t_fields S"
  by (induction as arbitrary: S; simp add: add_action_def)+

lemma copy_simps [simp]:
  "fst (copy_traits a P) = next_obj P"
  "p_types (snd (copy_traits a P)) = p_types P"
  "p_traits (snd (copy_traits a P)) = p_traits P"
  "p_funcs (snd (copy_traits a P)) = p_funcs P"
  "next_obj (snd (copy_traits a P)) = Suc (next_obj P)"
  "trait_dicts (snd (copy_traits a P)) = (trait_dicts P)(next_obj P := trait_dicts P a)"
  "method_dicts (snd (copy_traits a P)) = method_dicts P"
  "fst (copy_methods a P) = next_obj P"
  "p_types (snd (copy_methods a P)) = p_types P"
  "p_traits (snd (copy_methods a P)) = p_traits P"
  "p_funcs (snd (copy_methods a P)) = p_funcs P"
  "next_obj (snd (copy_methods a P)) = Suc (next_obj P)"
  "trait_dicts (snd (copy_methods a P)) = trait_dicts P"
  "method_dicts (snd (copy_methods a P)) = (method_dicts P)(next_obj P := method_dicts P a)"
  by (simp_all add: copy_traits_def copy_methods_def)

lemma store_wf_init: "store_wf Protocol_init"
  by (simp add: store_wf_def Protocol_init_types Protocol_init_next split: if_splits)

subsection \<open>Allocated dictionaries stay allocated\<close>

lemma store_wf_define_bitstring:
  "store_wf P \<Longrightarrow> store_wf (snd (define_bitstring L b P))"
  by (fastforce simp: store_wf_def define_bitstring_def split_beta split: sum.splits if_splits)

lemma store_wf_define_array:
  "store_wf P \<Longrightarrow> store_wf (snd (define_array L a P))"
  by (fastforce simp: store_wf_def define_array_def split_beta split: sum.splits if_splits)

lemma store_wf_define_enum:
  "store_wf P \<Longrightarrow> store_wf (snd (define_enum L e P))"
  by (fastforce simp: store_wf_def define_enum_def split_beta split: sum.splits if_splits)

lemma store_wf_define_function:
  "store_wf P \<Longrightarrow> store_wf (snd (define_function L f P))"
  by (fastforce simp: store_wf_def define_function_def split: sum.splits if_splits)

lemma store_wf_define_struct:
  "store_wf P \<Longrightarrow> store_wf (snd (define_struct L s P))"
  by (fastforce simp: store_wf_def define_struct_def split_beta split: sum.splits if_splits)

lemma store_wf_derive_type:
  "store_wf P \<Longrightarrow> store_wf (snd (derive_type L n P))"
  by (fastforce simp: store_wf_def derive_type_def split_beta Let_def type_of_def
        split: sum.splits if_splits option.splits)

lemma define_bitstring_traits:
  assumes "bs_construct b = ''BitString''" and "bs_name b \<notin> dom (p_types P)"
    and "TYPE_NAME_REGEX L (bs_name b)"
    and "{''Sized'', ''Value'', ''Equality''} \<subseteq> dom (p_traits P)"
    and "traits_named P"
  shows "dom (trait_dicts (snd (define_bitstring L b P)) (next_obj P))
           = {''Sized'', ''Value'', ''Equality''}"
proof -
  let ?T = "fst (BitString (bs_name b) (bs_size b) P)"
  let ?Q = "set_type (bs_name b) ?T (snd (BitString (bs_name b) (bs_size b) P))"
  have run: "define_bitstring L b P = implement_traits ?T [''Sized'', ''Value'', ''Equality''] ?Q"
    using assms(1-3) by (simp add: define_bitstring_def validate_irtype_def split_beta)
  have ok: "fst (implement_traits ?T [''Sized'', ''Value'', ''Equality''] ?Q) = Inr ()"
    using assms(4) by (simp add: implement_traits_ok)
  have tn: "traits_named ?Q" using assms(5) by (simp add: traits_named_def)
  from implement_traits_dom [OF ok tn] show ?thesis
    unfolding run by auto
qed



section \<open>Properties of the traversal\<close>

subsection \<open>A deeper bound on the recursion changes no result\<close>








subsection \<open>Lists of names\<close>










subsection \<open>What a returning traversal has appended\<close>












subsection \<open>A cycle of references that are always followed\<close>

lemma dfs_struct_returns_each:
  "dfs_struct d h fs acc = Some (Inr r) \<Longrightarrow> x \<in> set fs \<Longrightarrow>
   \<exists>acc' r'. dfs_protocoltype d h x acc' = Some (Inr r')"
proof (induction fs arbitrary: acc)
  case Nil
  then show ?case by simp
next
  case (Cons f fs)
  from Cons.prems(1) obtain n1 where 1: "dfs_protocoltype d h f acc = Some (Inr n1)"
    and 2: "dfs_struct d h fs n1 = Some (Inr r)"
    by (auto split: option.splits sum.splits)
  show ?case
  proof (cases "x = f")
    case True
    with 1 show ?thesis by blast
  next
    case False
    with Cons.prems(2) have "x \<in> set fs" by simp
    from Cons.IH [OF 2 this] show ?thesis .
  qed
qed

lemma dfs_enum_returns_each:
  "dfs_enum d h n vs pf st acc = Some (Inr r) \<Longrightarrow> x \<in> set (vs @ [pf, st]) \<Longrightarrow>
   \<exists>acc' r'. dfs_protocoltype d h x acc' = Some (Inr r')"
proof (induction vs arbitrary: acc)
  case Nil
  from Nil.prems(1) obtain n1 where 1: "dfs_protocoltype d h pf (acc @ [n]) = Some (Inr n1)"
    and 2: "dfs_protocoltype d h st n1 = Some (Inr r)"
    by (auto simp del: dfs_protocoltype.simps(3) split: option.splits sum.splits)
  from Nil.prems(2) have "x = pf \<or> x = st" by simp
  with 1 2 show ?case by blast
next
  case (Cons v vs)
  from Cons.prems(1) obtain n1 where 1: "dfs_protocoltype d h v acc = Some (Inr n1)"
    and 2: "dfs_enum d h n vs pf st n1 = Some (Inr r)"
    by (auto simp del: dfs_protocoltype.simps(3) split: option.splits sum.splits)
  show ?case
  proof (cases "x = v")
    case True
    with 1 show ?thesis by blast
  next
    case False
    with Cons.prems(2) have "x \<in> set (vs @ [pf, st])" by simp
    from Cons.IH [OF 2 this] show ?thesis .
  qed
qed

lemma dfs_node_returns_each:
  assumes "dfs_protocoltype (Suc d) h (Some a) acc = Some (Inr r)"
    and "x \<in> set (direct_refs (h a))"
  shows "\<exists>acc' r'. dfs_protocoltype d h x acc' = Some (Inr r')"
proof (cases "h a")
  case (PStruct n fs)
  with assms(1) obtain names where "dfs_struct d h fs acc = Some (Inr names)"
    by (auto split: option.splits sum.splits)
  from dfs_struct_returns_each [OF this] assms(2) PStruct show ?thesis by simp
next
  case (PArray n el)
  with assms(1) obtain names where "dfs_protocoltype d h el acc = Some (Inr names)"
    by (auto split: option.splits sum.splits)
  with assms(2) PArray show ?thesis by auto
next
  case (PEnum n vs pf st)
  with assms(1) obtain names where "dfs_enum d h n vs pf st acc = Some (Inr names)"
    by (auto split: option.splits sum.splits)
  from dfs_enum_returns_each [OF this] assms(2) PEnum show ?thesis by simp
qed (use assms(2) in simp_all)

lemma cycle_step:
  assumes "(a, c) \<in> D\<^sup>*" and "(c, c) \<in> D\<^sup>+"
  shows "\<exists>b. (a, b) \<in> D \<and> (b, c) \<in> D\<^sup>*"
proof (cases "a = c")
  case True
  with assms(2) show ?thesis by (auto dest: tranclD)
next
  case False
  with assms(1) show ?thesis by (auto elim: converse_rtranclE)
qed

lemma cycle_never_returns:
  assumes "(c, c) \<in> (direct_edges h)\<^sup>+"
  shows "(a, c) \<in> (direct_edges h)\<^sup>* \<Longrightarrow> dfs_protocoltype d h (Some a) acc \<noteq> Some (Inr r)"
proof (induction d arbitrary: a acc r)
  case 0
  then show ?case by simp
next
  case (Suc d)
  from cycle_step [OF Suc.prems assms] obtain b
    where ab: "(a, b) \<in> direct_edges h" and bc: "(b, c) \<in> (direct_edges h)\<^sup>*" by blast
  show ?case
  proof
    assume "dfs_protocoltype (Suc d) h (Some a) acc = Some (Inr r)"
    from dfs_node_returns_each [OF this, of "Some b"] ab
    obtain acc' r' where "dfs_protocoltype d h (Some b) acc' = Some (Inr r')"
      by (auto simp: direct_edges_def)
    with Suc.IH [OF bc] show False by blast
  qed
qed

lemma dfs_pdus_returns_each:
  "dfs_pdus d h rs acc = Some (Inr r) \<Longrightarrow> x \<in> set rs \<Longrightarrow>
   \<exists>acc' r'. dfs_protocoltype d h x acc' = Some (Inr r')"
proof (induction rs arbitrary: acc)
  case Nil
  then show ?case by simp
next
  case (Cons p rs)
  from Cons.prems(1) obtain n1 where 1: "dfs_protocoltype d h p acc = Some (Inr n1)"
    and 2: "dfs_pdus d h rs n1 = Some (Inr r)"
    by (auto split: option.splits sum.splits)
  show ?case
  proof (cases "x = p")
    case True
    with 1 show ?thesis by blast
  next
    case False
    with Cons.prems(2) have "x \<in> set rs" by simp
    from Cons.IH [OF 2 this] show ?thesis .
  qed
qed

lemma direct_cycle_never_returns:
  assumes "direct_cycle P"
  shows "dfs_protocol d P \<noteq> Some (Inr out)"
proof
  assume "dfs_protocol d P = Some (Inr out)"
  then obtain xs where raw: "dfs_pdus d (objects P) (pdus P) [] = Some (Inr xs)"
    by (auto simp: dfs_protocol_def split: option.splits sum.splits)
  from assms obtain r c where r: "Some r \<in> set (pdus P)"
    and rc: "(r, c) \<in> (direct_edges (objects P))\<^sup>*"
    and cc: "(c, c) \<in> (direct_edges (objects P))\<^sup>+"
    by (auto simp: direct_cycle_def)
  from dfs_pdus_returns_each [OF raw r] obtain acc' r'
    where "dfs_protocoltype d (objects P) (Some r) acc' = Some (Inr r')" by blast
  with cycle_never_returns [OF cc rc] show False by blast
qed


section \<open>Name validation\<close>

subsection \<open>Registered names are valid names\<close>


lemma names_ok_define_bitstring:
  "names_ok L P \<Longrightarrow> names_ok L (snd (define_bitstring L b P))"
  by (auto simp: names_ok_def define_bitstring_def validate_irtype_def split_beta
        split: if_splits)

lemma names_ok_define_array:
  "names_ok L P \<Longrightarrow> names_ok L (snd (define_array L a P))"
  by (auto simp: names_ok_def define_array_def validate_irtype_def split_beta
        split: if_splits sum.splits)

lemma names_ok_define_enum:
  "names_ok L P \<Longrightarrow> names_ok L (snd (define_enum L e P))"
  by (auto simp: names_ok_def define_enum_def validate_irtype_def split_beta
        split: if_splits sum.splits)

lemma names_ok_define_struct:
  "names_ok L P \<Longrightarrow> names_ok L (snd (define_struct L s P))"
  by (auto simp: names_ok_def define_struct_def validate_irtype_def split_beta
        split: if_splits sum.splits)

lemma names_ok_derive_type:
  "names_ok L P \<Longrightarrow> names_ok L (snd (derive_type L n P))"
  by (auto simp: names_ok_def derive_type_def validate_irtype_def split_beta Let_def
        split: if_splits sum.splits)

lemma names_ok_define_function:
  "names_ok L P \<Longrightarrow> names_ok L (snd (define_function L f P))"
  by (auto simp: names_ok_def define_function_def split: if_splits sum.splits)


subsection \<open>A malformed name is reported as such\<close>




section \<open>Expressions need an enclosing structure\<close>

text \<open>
  Claim C7: resolving any expression record with an enclosing type whose kind is not
  \<open>Struct\<close> fails (with the scope error), and resolving \<open>This\<close> with an enclosing
  structure type yields an expression whose static type is a reference to exactly that
  type, its name.
\<close>

theorem expression_scope_and_this:
  "(t_kind this \<noteq> ''Struct'' \<longrightarrow> parse_expression P e this = Inl ScopeError) \<and>
   (t_kind this = ''Struct'' \<longrightarrow>
      (\<exists>x. parse_expression P This_ir this = Inr x \<and>
           expr_type P x = Inr (Some (t_name this))))"
  by (cases e) simp_all

theorem expression_scope_and_this_witness:
  "parse_expression Protocol_init (FieldAccess_ir This_ir ''seq'') (prim ''BitString'' ''Bits16'' 6)
     = Inl ScopeError \<and>
   (\<exists>x. parse_expression Protocol_init This_ir (prim ''Struct'' ''TestStruct'' 6) = Inr x \<and>
        expr_type Protocol_init x = Inr (Some ''TestStruct''))"
proof -
  have k1: "t_kind (prim ''BitString'' ''Bits16'' 6) \<noteq> ''Struct''"
    by (simp add: prim_def)
  have k2: "t_kind (prim ''Struct'' ''TestStruct'' 6) = ''Struct''"
    and n2: "t_name (prim ''Struct'' ''TestStruct'' 6) = ''TestStruct''"
    by (simp_all add: prim_def)
  from expression_scope_and_this
         [of "prim ''BitString'' ''Bits16'' 6" Protocol_init "FieldAccess_ir This_ir ''seq''"] k1
  have a: "parse_expression Protocol_init (FieldAccess_ir This_ir ''seq'')
             (prim ''BitString'' ''Bits16'' 6) = Inl ScopeError"
    by blast
  from expression_scope_and_this [of "prim ''Struct'' ''TestStruct'' 6" Protocol_init] k2
  have "\<exists>x. parse_expression Protocol_init This_ir (prim ''Struct'' ''TestStruct'' 6) = Inr x \<and>
            expr_type Protocol_init x = Inr (Some (t_name (prim ''Struct'' ''TestStruct'' 6)))"
    by blast
  with n2 a show ?thesis by (simp only:)
qed

section \<open>Constraints are Boolean, actions are Nothing\<close>

lemma parse_constraints_mismatch:
  assumes "parse_constraints P pre this = Inr cs"
    and "parse_expression P c this = Inr x" and "expr_type P x = Inr ty"
    and "ty \<noteq> Some ''Boolean''" and "''Boolean'' \<in> dom (p_types P)"
  shows "parse_constraints P (pre @ c # post) this = Inl TypeMismatch"
  using assms
proof (induction pre arbitrary: cs)
  case Nil
  then show ?case by (auto simp: type_of_def)
next
  case (Cons a pre)
  then show ?case
    by (auto simp: type_of_def split: sum.splits if_splits)
qed

lemma parse_actions_mismatch:
  assumes "parse_actions P pre this = Inr cs"
    and "parse_expression P c this = Inr x" and "expr_type P x = Inr ty"
    and "ty \<noteq> Some ''Nothing''" and "''Nothing'' \<in> dom (p_types P)"
  shows "parse_actions P (pre @ c # post) this = Inl TypeMismatch"
  using assms
proof (induction pre arbitrary: cs)
  case Nil
  then show ?case by (auto simp: type_of_def)
next
  case (Cons a pre)
  then show ?case
    by (auto simp: type_of_def split: sum.splits if_splits)
qed


text \<open>
  Claim C6: a \<open>define_struct\<close> call that comes to resolve a constraint whose static type
  is not \<open>Boolean\<close> fails with the type-mismatch error, and one that comes to resolve an
  action whose static type is not \<open>Nothing\<close> fails with the type-mismatch error. The
  call reaches the expression when the name is valid, the fields parse, and what precedes
  the expression in its list resolves with the expected type; the expression is resolved
  in the registry and for the structure as the call has built them by then.
\<close>

theorem struct_constraint_and_action_types:
  "(validate_irtype L P (st_construct irobj) (st_name irobj) ''Struct'' = Inr () \<and>
    register_struct (st_name irobj) P = (S0, P1) \<and>
    parse_fields L P1 (st_fields irobj) S0 = Inr fs \<and>
    add_fields (st_name irobj) S0 fs P1 = (S1, P2) \<and>
    st_constraints irobj = pre @ c # post \<and>
    parse_constraints P2 pre S1 = Inr cs \<and>
    parse_expression P2 c S1 = Inr x \<and> expr_type P2 x = Inr ty \<and>
    ty \<noteq> Some ''Boolean'' \<and> ''Boolean'' \<in> dom (p_types P2)
    \<longrightarrow> fst (define_struct L irobj P) = Inl TypeMismatch) \<and>
   (validate_irtype L P (st_construct irobj) (st_name irobj) ''Struct'' = Inr () \<and>
    register_struct (st_name irobj) P = (S0, P1) \<and>
    parse_fields L P1 (st_fields irobj) S0 = Inr fs \<and>
    add_fields (st_name irobj) S0 fs P1 = (S1, P2) \<and>
    parse_constraints P2 (st_constraints irobj) S1 = Inr cs' \<and>
    add_constraints (st_name irobj) S1 cs' P2 = (S2, P3) \<and>
    st_actions irobj = apre @ a # apost \<and>
    parse_actions P3 apre S2 = Inr as \<and>
    parse_expression P3 a S2 = Inr y \<and> expr_type P3 y = Inr tz \<and>
    tz \<noteq> Some ''Nothing'' \<and> ''Nothing'' \<in> dom (p_types P3)
    \<longrightarrow> fst (define_struct L irobj P) = Inl TypeMismatch)"
proof (intro conjI impI)
  assume h: "validate_irtype L P (st_construct irobj) (st_name irobj) ''Struct'' = Inr () \<and>
    register_struct (st_name irobj) P = (S0, P1) \<and>
    parse_fields L P1 (st_fields irobj) S0 = Inr fs \<and>
    add_fields (st_name irobj) S0 fs P1 = (S1, P2) \<and>
    st_constraints irobj = pre @ c # post \<and>
    parse_constraints P2 pre S1 = Inr cs \<and>
    parse_expression P2 c S1 = Inr x \<and> expr_type P2 x = Inr ty \<and>
    ty \<noteq> Some ''Boolean'' \<and> ''Boolean'' \<in> dom (p_types P2)"
  then have "parse_constraints P2 (st_constraints irobj) S1 = Inl TypeMismatch"
    using parse_constraints_mismatch [of P2 pre S1 cs c x ty post] by simp
  with h show "fst (define_struct L irobj P) = Inl TypeMismatch"
    by (simp add: define_struct_def)
next
  assume h: "validate_irtype L P (st_construct irobj) (st_name irobj) ''Struct'' = Inr () \<and>
    register_struct (st_name irobj) P = (S0, P1) \<and>
    parse_fields L P1 (st_fields irobj) S0 = Inr fs \<and>
    add_fields (st_name irobj) S0 fs P1 = (S1, P2) \<and>
    parse_constraints P2 (st_constraints irobj) S1 = Inr cs' \<and>
    add_constraints (st_name irobj) S1 cs' P2 = (S2, P3) \<and>
    st_actions irobj = apre @ a # apost \<and>
    parse_actions P3 apre S2 = Inr as \<and>
    parse_expression P3 a S2 = Inr y \<and> expr_type P3 y = Inr tz \<and>
    tz \<noteq> Some ''Nothing'' \<and> ''Nothing'' \<in> dom (p_types P3)"
  then have "parse_actions P3 (st_actions irobj) S2 = Inl TypeMismatch"
    using parse_actions_mismatch [of P3 apre S2 as a y tz apost] by simp
  with h show "fst (define_struct L irobj P) = Inl TypeMismatch"
    by (simp add: define_struct_def)
qed


theorem struct_constraint_and_action_types_witness:
  "fst (define_struct sample_lexer size_constraint_struct Protocol_init) = Inl TypeMismatch \<and>
   fst (define_struct sample_lexer boolean_action_struct Protocol_init) = Inl TypeMismatch"
proof -
  let ?R = "register_struct ''TestStruct'' Protocol_init"
  let ?A = "add_fields ''TestStruct'' (fst ?R) [] (snd ?R)"
  let ?C = "add_constraints ''TestStruct'' (fst ?A) [] (snd ?A)"
  have "fst (define_struct sample_lexer size_constraint_struct Protocol_init) = Inl TypeMismatch"
    using struct_constraint_and_action_types
      [where L = sample_lexer and irobj = size_constraint_struct and P = Protocol_init
         and ?S0.0 = "fst ?R" and ?P1.0 = "snd ?R" and fs = "[]"
         and ?S1.0 = "fst ?A" and ?P2.0 = "snd ?A"
         and pre = "[]" and c = "Constant_ir ''Size'' (JInt 2)" and post = "[]" and cs = "[]"
         and x = "ConstantExpression ''Size'' (JInt 2)" and ty = "Some ''Size''",
       THEN conjunct1]
    by (simp add: size_constraint_struct_def validate_irtype_def Protocol_init_types prim_def
          type_of_def prod_eq_iff)
  moreover
  have "fst (define_struct sample_lexer boolean_action_struct Protocol_init) = Inl TypeMismatch"
    using struct_constraint_and_action_types
      [where L = sample_lexer and irobj = boolean_action_struct and P = Protocol_init
         and ?S0.0 = "fst ?R" and ?P1.0 = "snd ?R" and fs = "[]"
         and ?S1.0 = "fst ?A" and ?P2.0 = "snd ?A" and cs' = "[]"
         and ?S2.0 = "fst ?C" and ?P3.0 = "snd ?C"
         and apre = "[]" and a = "Constant_ir ''Boolean'' (JStr ''True'')" and apost = "[]"
         and as = "[]"
         and y = "ConstantExpression ''Boolean'' (JStr ''True'')" and tz = "Some ''Boolean''",
       THEN conjunct2]
    by (simp add: boolean_action_struct_def validate_irtype_def Protocol_init_types prim_def
          type_of_def prod_eq_iff)
  ultimately show ?thesis by (simp only:)
qed


section \<open>Arrays\<close>

text \<open>
  Claim C8: for an element type that is registered and has a size, a successful
  \<open>define_array\<close> call (of any length, the positive ones among them) yields a type whose
  size is the element's size times the length and whose set of implemented traits is
  exactly \<open>Sized\<close>, \<open>Equality\<close> and \<open>IndexCollection\<close>, three traits.
\<close>

theorem array_size_and_traits:
  assumes "define_array L irobj P = (Inr (), P')"
    and "p_types P (ar_element_type irobj) = Some E" and "t_size E = Some s"
    and "traits_named P"
  shows "\<exists>A. p_types P' (ar_name irobj) = Some A \<and>
             t_size A = Some (s * ar_length irobj) \<and>
             dom (trait_dicts P' (t_traits A)) = {''Sized'', ''Equality'', ''IndexCollection''} \<and>
             card (dom (trait_dicts P' (t_traits A))) = 3"
proof -
  let ?T = "fst (Array (ar_name irobj) (ar_element_type irobj) E (ar_length irobj) P)"
  let ?Q = "set_type (ar_name irobj) ?T
              (snd (Array (ar_name irobj) (ar_element_type irobj) E (ar_length irobj) P))"
  let ?ns = "[''Sized'', ''Equality'', ''IndexCollection'']"
  from assms(1,2) have run: "implement_traits ?T ?ns ?Q = (Inr (), P')"
    by (simp add: define_array_def type_of_def split_beta split: sum.splits)
  then have ok: "fst (implement_traits ?T ?ns ?Q) = Inr ()"
    and P': "P' = snd (implement_traits ?T ?ns ?Q)" by simp_all
  have tn: "traits_named ?Q"
    using assms(4) by (simp add: traits_named_def)
  have empty: "trait_dicts ?Q (t_traits ?T) = Map.empty"
    by simp
  have size: "t_size ?T = Some (s * ar_length irobj)"
    using assms(3) by simp
  have types: "p_types P' (ar_name irobj) = Some ?T"
    unfolding P' by simp
  have d: "dom (trait_dicts P' (t_traits ?T)) = {''Sized'', ''Equality'', ''IndexCollection''}"
    unfolding P' using implement_traits_dom [OF ok tn] empty by simp
  have "card {''Sized'', ''Equality'', ''IndexCollection''} = 3" by simp
  with types size d show ?thesis by simp
qed



theorem array_size_and_traits_witness:
  "\<exists>A. p_types (snd (define_array sample_lexer csrc_list_ir
                        (snd (define_bitstring sample_lexer ssrc_ir Protocol_init))))
            ''CSRCList'' = Some A \<and>
       t_size A = Some 128 \<and>
       dom (trait_dicts (snd (define_array sample_lexer csrc_list_ir
                                (snd (define_bitstring sample_lexer ssrc_ir Protocol_init))))
              (t_traits A)) = {''Sized'', ''Equality'', ''IndexCollection''} \<and>
       card (dom (trait_dicts (snd (define_array sample_lexer csrc_list_ir
                                (snd (define_bitstring sample_lexer ssrc_ir Protocol_init))))
              (t_traits A))) = 3"
proof -
  let ?P = "snd (define_bitstring sample_lexer ssrc_ir Protocol_init)"
  let ?E = "(prim ''BitString'' ''SSRC'' 6)\<lparr>t_size := Some 32\<rparr>"
  have b: "bs_construct ssrc_ir = ''BitString''" "bs_name ssrc_ir \<notin> dom (p_types Protocol_init)"
    "TYPE_NAME_REGEX sample_lexer (bs_name ssrc_ir)"
    "{''Sized'', ''Value'', ''Equality''} \<subseteq> dom (p_traits Protocol_init)"
    by (simp_all add: ssrc_ir_def Protocol_init_types Protocol_init_traits standard_trait_dom)
  have types: "p_types ?P = (p_types Protocol_init)(''SSRC'' \<mapsto> ?E)"
    using define_bitstring_ok(2) [OF b] by (simp add: ssrc_ir_def Protocol_init_next)
  have traits: "p_traits ?P = map_of standard_traits"
    using define_bitstring_ok(3) [OF b] by (simp add: Protocol_init_traits)
  have named: "traits_named ?P"
    using traits_named_init by (simp add: traits_named_def traits Protocol_init_traits)
  have ok: "fst (define_array sample_lexer csrc_list_ir ?P) = Inr ()"
    by (simp add: define_array_def validate_irtype_def csrc_list_ir_def types type_of_def
          Protocol_init_types split_beta implement_traits_ok traits standard_trait_dom)
  then have run: "define_array sample_lexer csrc_list_ir ?P
                    = (Inr (), snd (define_array sample_lexer csrc_list_ir ?P))"
    by (simp add: prod_eq_iff)
  have el: "p_types ?P (ar_element_type csrc_list_ir) = Some ?E"
    by (simp add: types csrc_list_ir_def)
  have sz: "t_size ?E = Some 32" by simp
  from array_size_and_traits [OF run el sz named] show ?thesis
    by (simp add: csrc_list_ir_def)
qed


section \<open>A structure is registered before its fields are parsed\<close>

text \<open>
  Claim C10: a \<open>define_struct\<close> call that passes name validation binds the new, empty
  structure to its name before it parses the fields, so that a lookup of the structure's
  own name, which fails in the registry the call started from, returns the structure
  being defined while the fields are resolved; a field whose declared type is the
  enclosing structure itself is therefore accepted, and the call succeeds with that
  field in the structure.
\<close>

theorem self_referential_struct_accepted:
  assumes "validate_irtype L P (st_construct irobj) (st_name irobj) ''Struct'' = Inr ()"
    and "st_fields irobj = [self_field f (st_name irobj) b v]"
    and "FUNC_NAME_REGEX L f" and "b \<in> dom (p_types P)"
    and "st_constraints irobj = []" and "st_actions irobj = []"
    and "{''Sized'', ''Equality''} \<subseteq> dom (p_traits P)"
  shows "type_of P (st_name irobj) = Inl UnknownReference \<and>
         type_of (snd (register_struct (st_name irobj) P)) (st_name irobj)
           = Inr (fst (register_struct (st_name irobj) P)) \<and>
         (\<exists>P' S. define_struct L irobj P = (Inr (), P') \<and>
                 p_types P' (st_name irobj) = Some S \<and>
                 t_kind S = ''Struct'' \<and>
                 map field_name (t_fields S) = [f] \<and>
                 map field_type (t_fields S) = [st_name irobj])"
proof -
  let ?nm = "st_name irobj"
  let ?S0 = "prim ''Struct'' ?nm (next_obj P)"
  let ?P1 = "snd (register_struct ?nm P)"
  let ?fd = "\<lparr>field_name = f, field_type = ?nm,
              is_present = ConstantExpression b v, transform = None\<rparr>"
  from assms(1) have fresh: "?nm \<notin> dom (p_types P)"
    by (simp add: validate_irtype_def split: if_splits)
  then have a: "type_of P ?nm = Inl UnknownReference"
    by (auto simp: type_of_def split: option.splits)
  have b: "type_of ?P1 ?nm = Inr (fst (register_struct ?nm P))"
    by (simp add: type_of_def)
  from assms(4) fresh have bne: "b \<noteq> ?nm" by auto
  from assms(4) obtain B where B: "p_types P b = Some B" by auto
  have pf: "parse_fields L ?P1 (st_fields irobj) ?S0 = Inr [?fd]"
    using assms(2,3) B bne
    by (simp add: self_field_def type_of_def parse_transform_def)
  let ?S1 = "add_field ?S0 ?fd"
  let ?P4 = "set_type ?nm ?S1 (set_type ?nm ?S1 (set_type ?nm ?S1 ?P1))"
  have run: "define_struct L irobj P = implement_traits ?S1 [''Sized'', ''Equality''] ?P4"
    using assms(1,5,6) pf
    by (simp add: define_struct_def split_beta)
  have ok: "fst (implement_traits ?S1 [''Sized'', ''Equality''] ?P4) = Inr ()"
    using assms(7) by (simp add: implement_traits_ok)
  have r1: "fst (define_struct L irobj P) = Inr ()"
    using run ok by simp
  have r2: "p_types (snd (define_struct L irobj P)) ?nm = Some ?S1"
    using run by simp
  have k: "t_kind ?S1 = ''Struct''" "map field_name (t_fields ?S1) = [f]"
    "map field_type (t_fields ?S1) = [?nm]"
    by (simp_all add: add_field_def)
  have "\<exists>P' S. define_struct L irobj P = (Inr (), P') \<and>
                 p_types P' ?nm = Some S \<and> t_kind S = ''Struct'' \<and>
                 map field_name (t_fields S) = [f] \<and>
                 map field_type (t_fields S) = [?nm]"
  proof (intro exI conjI)
    show "define_struct L irobj P = (Inr (), snd (define_struct L irobj P))"
      using r1 by (simp add: prod_eq_iff)
    show "p_types (snd (define_struct L irobj P)) ?nm = Some ?S1" by (rule r2)
  qed (rule k)+
  with a b show ?thesis by (simp only: simp_thms)
qed

theorem self_referential_struct_accepted_witness:
  "type_of Protocol_init ''Node'' = Inl UnknownReference \<and>
   type_of (snd (register_struct ''Node'' Protocol_init)) ''Node''
     = Inr (fst (register_struct ''Node'' Protocol_init)) \<and>
   (\<exists>P' S. define_struct sample_lexer linked_list_ir Protocol_init = (Inr (), P') \<and>
           p_types P' ''Node'' = Some S \<and> t_kind S = ''Struct'' \<and>
           map field_name (t_fields S) = [''next''] \<and>
           map field_type (t_fields S) = [''Node''])"
proof -
  have h: "validate_irtype sample_lexer Protocol_init (st_construct linked_list_ir)
             (st_name linked_list_ir) ''Struct'' = Inr ()"
    "st_fields linked_list_ir
       = [self_field ''next'' (st_name linked_list_ir) ''Boolean'' (JStr ''True'')]"
    "FUNC_NAME_REGEX sample_lexer ''next''" "''Boolean'' \<in> dom (p_types Protocol_init)"
    "st_constraints linked_list_ir = []" "st_actions linked_list_ir = []"
    "{''Sized'', ''Equality''} \<subseteq> dom (p_traits Protocol_init)"
    by (simp_all add: linked_list_ir_def validate_irtype_def Protocol_init_types
          Protocol_init_traits standard_trait_dom)
  have n: "st_name linked_list_ir = ''Node''" by (simp add: linked_list_ir_def)
  from self_referential_struct_accepted [OF h] show ?thesis
    unfolding n .
qed


section \<open>What a failed definition leaves behind\<close>

text \<open>
  Claim C1, as the specification states it: when a constructor call raises, the type map
  is exactly as it was before the call and holds no entry for the failed entity. The
  code binds a new structure to its name before it parses the fields: a structure with a
  field of an unregistered type fails with the lookup error and leaves the empty
  structure registered under its name.
\<close>

theorem partial_struct_counterexample:
  "fst (define_struct sample_lexer dangling_struct_ir Protocol_init) = Inl UnknownReference \<and>
   p_types Protocol_init ''Packet'' = None \<and>
   p_types (snd (define_struct sample_lexer dangling_struct_ir Protocol_init)) ''Packet''
     = Some (prim ''Struct'' ''Packet'' 6)"
  by (simp add: define_struct_def dangling_struct_ir_def validate_irtype_def
        Protocol_init_types Protocol_init_next split_beta self_field_def type_of_def)


subsection \<open>The registrations made before the call\<close>

lemma define_struct_intact:
  assumes "store_wf P"
  shows "registered_intact P (snd (define_struct L s P))"
proof -
  have lt: "\<And>n T. p_types P n = Some T \<Longrightarrow>
              t_traits T \<noteq> next_obj P \<and> t_methods T \<noteq> Suc (next_obj P) \<and>
              t_traits T < next_obj P \<and> t_methods T < next_obj P"
    using assms by (fastforce simp: store_wf_def)
  show ?thesis
  proof (cases "validate_irtype L P (st_construct s) (st_name s) ''Struct''")
    case (Inl e)
    then show ?thesis by (simp add: define_struct_def registered_intact_def)
  next
    case (Inr u)
    then have fresh: "p_types P (st_name s) = None"
      by (auto simp: validate_irtype_def split: if_splits)
    then have ne: "\<And>n T. p_types P n = Some T \<Longrightarrow> n \<noteq> st_name s" by auto
    show ?thesis
      using Inr lt ne
      by (auto simp: define_struct_def registered_intact_def split_beta implement_traits_other
            split: sum.splits)
  qed
qed


lemma derive_type_intact:
  assumes "store_wf P"
  shows "registered_intact P (snd (derive_type L n P))"
proof -
  have lt: "\<And>m T. p_types P m = Some T \<Longrightarrow>
              t_traits T \<noteq> next_obj P \<and> t_methods T \<noteq> Suc (next_obj P) \<and>
              t_traits T < next_obj P \<and> t_methods T < next_obj P"
    using assms by (fastforce simp: store_wf_def)
  show ?thesis
  proof (cases "validate_irtype L P (nt_construct n) (nt_name n) ''NewType''")
    case (Inl e)
    then show ?thesis by (simp add: derive_type_def registered_intact_def)
  next
    case (Inr u)
    then have fresh: "p_types P (nt_name n) = None"
      by (auto simp: validate_irtype_def split: if_splits)
    then have ne: "\<And>m T. p_types P m = Some T \<Longrightarrow> m \<noteq> nt_name n" by auto
    show ?thesis
      using Inr lt ne
      by (auto simp: derive_type_def registered_intact_def split_beta Let_def type_of_def
            implement_traits_other split: sum.splits option.splits)
  qed
qed

lemma define_struct_dom:
  "dom (p_types (snd (define_struct L s P))) \<subseteq> insert (st_name s) (dom (p_types P))"
  by (auto simp: define_struct_def split_beta split: sum.splits if_splits)

lemma derive_type_dom:
  "dom (p_types (snd (derive_type L n P))) \<subseteq> insert (nt_name n) (dom (p_types P))"
  by (auto simp: derive_type_def split_beta Let_def split: sum.splits if_splits)

lemma define_bitstring_failure:
  assumes "{''Sized'', ''Value'', ''Equality''} \<subseteq> dom (p_traits P)"
    and "fst (define_bitstring L b P) \<noteq> Inr ()"
  shows "snd (define_bitstring L b P) = P"
  using assms
  by (auto simp: define_bitstring_def split_beta implement_traits_ok split: sum.splits)

lemma define_array_failure:
  assumes "{''Sized'', ''Equality'', ''IndexCollection''} \<subseteq> dom (p_traits P)"
    and "fst (define_array L a P) \<noteq> Inr ()"
  shows "snd (define_array L a P) = P"
  using assms
  by (auto simp: define_array_def split_beta implement_traits_ok split: sum.splits)

lemma define_enum_failure:
  assumes "''Sized'' \<in> dom (p_traits P)"
    and "fst (define_enum L e P) \<noteq> Inr ()"
  shows "snd (define_enum L e P) = P"
  using assms
  by (auto simp: define_enum_def split_beta implement_traits_ok split: sum.splits)

lemma define_function_failure:
  assumes "fst (define_function L f P) \<noteq> Inr ()"
  shows "snd (define_function L f P) = P"
  using assms
  by (auto simp: define_function_def split: sum.splits if_splits)


text \<open>
  Claim C1, amended: on a registry that holds the standard traits, a failed
  \<open>define_bitstring\<close>, \<open>define_array\<close>, \<open>define_enum\<close> or \<open>define_function\<close> call leaves
  the registry exactly as it was. A failed \<open>define_struct\<close> or \<open>derive_type\<close> call
  leaves the trait map and the function map as they were and every type registered
  before the call bound to the same object with the same trait and method dictionaries;
  the type map has no new key but, possibly, the name of the failed entity.
\<close>

theorem failed_definition_effect:
  assumes "store_wf P"
    and "{''Sized'', ''Value'', ''Equality'', ''IndexCollection''} \<subseteq> dom (p_traits P)"
  shows "(fst (define_bitstring L b P) \<noteq> Inr () \<longrightarrow> snd (define_bitstring L b P) = P) \<and>
         (fst (define_array L a P) \<noteq> Inr () \<longrightarrow> snd (define_array L a P) = P) \<and>
         (fst (define_enum L e P) \<noteq> Inr () \<longrightarrow> snd (define_enum L e P) = P) \<and>
         (fst (define_function L f P) \<noteq> Inr () \<longrightarrow> snd (define_function L f P) = P) \<and>
         (fst (define_struct L s P) \<noteq> Inr () \<longrightarrow>
            registered_intact P (snd (define_struct L s P)) \<and>
            dom (p_types (snd (define_struct L s P))) \<subseteq> insert (st_name s) (dom (p_types P))) \<and>
         (fst (derive_type L n P) \<noteq> Inr () \<longrightarrow>
            registered_intact P (snd (derive_type L n P)) \<and>
            dom (p_types (snd (derive_type L n P))) \<subseteq> insert (nt_name n) (dom (p_types P)))"
  using assms define_bitstring_failure [of P L b] define_array_failure [of P L a]
    define_enum_failure [of P L e] define_function_failure [of L f P]
    define_struct_intact [of P L s] derive_type_intact [of P L n]
    define_struct_dom [of L s P] derive_type_dom [of L n P]
  by simp


theorem failed_definition_effect_witness:
  "snd (define_bitstring sample_lexer octet_ir Protocol_init) = Protocol_init \<and>
   snd (define_array sample_lexer csrc_list_ir Protocol_init) = Protocol_init \<and>
   snd (define_enum sample_lexer dangling_enum_ir Protocol_init) = Protocol_init \<and>
   snd (define_function sample_lexer dangling_function_ir Protocol_init) = Protocol_init \<and>
   registered_intact Protocol_init
     (snd (define_struct sample_lexer dangling_struct_ir Protocol_init)) \<and>
   dom (p_types (snd (define_struct sample_lexer dangling_struct_ir Protocol_init)))
     \<subseteq> insert ''Packet'' (dom (p_types Protocol_init)) \<and>
   registered_intact Protocol_init (snd (derive_type sample_lexer hashable_ir Protocol_init)) \<and>
   dom (p_types (snd (derive_type sample_lexer hashable_ir Protocol_init)))
     \<subseteq> insert ''Flag'' (dom (p_types Protocol_init))"
proof -
  have t: "{''Sized'', ''Value'', ''Equality'', ''IndexCollection''}
             \<subseteq> dom (p_traits Protocol_init)"
    by (simp add: Protocol_init_traits standard_trait_dom)
  have f1: "fst (define_bitstring sample_lexer octet_ir Protocol_init) \<noteq> Inr ()"
    by (simp add: define_bitstring_def validate_irtype_def octet_ir_def Protocol_init_types)
  have f2: "fst (define_array sample_lexer csrc_list_ir Protocol_init) \<noteq> Inr ()"
    by (simp add: define_array_def validate_irtype_def csrc_list_ir_def Protocol_init_types
          type_of_def)
  have f3: "fst (define_enum sample_lexer dangling_enum_ir Protocol_init) \<noteq> Inr ()"
    by (simp add: define_enum_def validate_irtype_def dangling_enum_ir_def Protocol_init_types
          type_of_def)
  have f4: "fst (define_function sample_lexer dangling_function_ir Protocol_init) \<noteq> Inr ()"
    by (simp add: define_function_def dangling_function_ir_def Protocol_init_types
          Protocol_init_funcs type_of_def)
  have f5: "fst (define_struct sample_lexer dangling_struct_ir Protocol_init) \<noteq> Inr ()"
    by (simp add: define_struct_def dangling_struct_ir_def validate_irtype_def
          Protocol_init_types split_beta self_field_def type_of_def)
  have f6: "fst (derive_type sample_lexer hashable_ir Protocol_init) \<noteq> Inr ()"
    by (simp add: derive_type_def hashable_ir_def validate_irtype_def Protocol_init_types
          Protocol_init_traits split_beta Let_def type_of_def implement_traits.simps trait_def
          standard_traits_def)
  have n: "st_name dangling_struct_ir = ''Packet''" "nt_name hashable_ir = ''Flag''"
    by (simp_all add: dangling_struct_ir_def hashable_ir_def)
  from failed_definition_effect
         [OF store_wf_init t, of sample_lexer octet_ir csrc_list_ir dangling_enum_ir
            dangling_function_ir dangling_struct_ir hashable_ir]
       f1 f2 f3 f4 f5 f6
  show ?thesis unfolding n by blast
qed


section \<open>A derived type owns its trait and method dictionaries\<close>

text \<open>
  Claim C5: after a successful \<open>derive_type\<close> call that derives \<open>D\<close> from a registered
  base type \<open>B\<close>, the trait set of \<open>D\<close> is the trait set of \<open>B\<close> united with the requested
  traits, \<open>B\<close> is bound as before with its trait and method dictionaries unchanged, and
  implementing any further trait for \<open>D\<close> adds it to the traits of \<open>D\<close> and leaves both
  dictionaries of \<open>B\<close> as they were.
\<close>

theorem derived_type_owns_its_dictionaries:
  assumes "store_wf P" and "traits_named P"
    and "derive_type L n P = (Inr (), P')"
    and "p_types P (nt_derived_from n) = Some B"
  shows "\<exists>D. p_types P' (nt_name n) = Some D \<and>
             t_kind D = t_kind B \<and> t_name D = nt_name n \<and>
             dom (trait_dicts P' (t_traits D))
               = dom (trait_dicts P (t_traits B)) \<union> set (nt_implements n) \<and>
             p_types P' (nt_derived_from n) = Some B \<and>
             trait_dicts P' (t_traits B) = trait_dicts P (t_traits B) \<and>
             method_dicts P' (t_methods B) = method_dicts P (t_methods B) \<and>
             (\<forall>tr. trait_name tr \<in> dom (trait_dicts (implement_trait D tr P') (t_traits D)) \<and>
                   trait_dicts (implement_trait D tr P') (t_traits B)
                     = trait_dicts P (t_traits B) \<and>
                   method_dicts (implement_trait D tr P') (t_methods B)
                     = method_dicts P (t_methods B))"
proof -
  let ?nm = "nt_name n"
  let ?a = "next_obj P"
  let ?D = "B\<lparr>t_name := ?nm, t_traits := ?a, t_methods := Suc ?a\<rparr>"
  let ?P6 = "set_type ?nm ?D
               (snd (copy_methods (t_methods B)
                 (set_type ?nm (B\<lparr>t_name := ?nm, t_traits := ?a\<rparr>)
                   (snd (copy_traits (t_traits B)
                     (set_type ?nm (B\<lparr>t_name := ?nm\<rparr>) (set_type ?nm B P)))))))"
  from assms(3) have valid: "validate_irtype L P (nt_construct n) ?nm ''NewType'' = Inr ()"
    by (auto simp: derive_type_def split: sum.splits)
  then have fresh: "p_types P ?nm = None"
    by (auto simp: validate_irtype_def split: if_splits)
  with assms(4) have ne: "nt_derived_from n \<noteq> ?nm" by auto
  from assms(1,4) have lt: "t_traits B < ?a" "t_methods B < ?a"
    by (auto simp: store_wf_def)
  from assms(3,4) valid have run: "implement_traits ?D (nt_implements n) ?P6 = (Inr (), P')"
    by (simp add: derive_type_def type_of_def Let_def split_beta)
  then have ok: "fst (implement_traits ?D (nt_implements n) ?P6) = Inr ()"
    and P': "P' = snd (implement_traits ?D (nt_implements n) ?P6)" by simp_all
  have tn: "traits_named ?P6" using assms(2) by (simp add: traits_named_def)
  have d0: "trait_dicts ?P6 ?a = trait_dicts P (t_traits B)" by simp
  have types: "p_types P' ?nm = Some ?D" unfolding P' by simp
  have base: "p_types P' (nt_derived_from n) = Some B"
    unfolding P' using assms(4) ne by simp
  have dD: "dom (trait_dicts P' (t_traits ?D))
              = dom (trait_dicts P (t_traits B)) \<union> set (nt_implements n)"
    unfolding P' using implement_traits_dom [OF ok tn] d0 by simp
  have bt: "trait_dicts P' (t_traits B) = trait_dicts P (t_traits B)"
    unfolding P' using lt by (simp add: implement_traits_other)
  have bm: "method_dicts P' (t_methods B) = method_dicts P (t_methods B)"
    unfolding P' using lt by (simp add: implement_traits_other)
  have grow: "\<forall>tr. trait_name tr \<in> dom (trait_dicts (implement_trait ?D tr P') (t_traits ?D)) \<and>
                 trait_dicts (implement_trait ?D tr P') (t_traits B)
                   = trait_dicts P (t_traits B) \<and>
                 method_dicts (implement_trait ?D tr P') (t_methods B)
                   = method_dicts P (t_methods B)"
    using lt bt bm by (simp add: implement_trait_def)
  show ?thesis
  proof (intro exI conjI)
    show "p_types P' ?nm = Some ?D" by (rule types)
    show "t_kind ?D = t_kind B" by simp
    show "t_name ?D = ?nm" by simp
    show "dom (trait_dicts P' (t_traits ?D))
            = dom (trait_dicts P (t_traits B)) \<union> set (nt_implements n)" by (rule dD)
    show "p_types P' (nt_derived_from n) = Some B" by (rule base)
    show "trait_dicts P' (t_traits B) = trait_dicts P (t_traits B)" by (rule bt)
    show "method_dicts P' (t_methods B) = method_dicts P (t_methods B)" by (rule bm)
    show "\<forall>tr. trait_name tr \<in> dom (trait_dicts (implement_trait ?D tr P') (t_traits ?D)) \<and>
                 trait_dicts (implement_trait ?D tr P') (t_traits B)
                   = trait_dicts P (t_traits B) \<and>
                 method_dicts (implement_trait ?D tr P') (t_methods B)
                   = method_dicts P (t_methods B)" by (rule grow)
  qed
qed


theorem derived_type_owns_its_dictionaries_witness:
  "\<exists>D. p_types (snd (derive_type sample_lexer seqnum_ir
                        (snd (define_bitstring sample_lexer bits16_ir Protocol_init))))
            ''SeqNum'' = Some D \<and>
       t_kind D = ''BitString'' \<and> t_name D = ''SeqNum'' \<and>
       dom (trait_dicts (snd (derive_type sample_lexer seqnum_ir
                                (snd (define_bitstring sample_lexer bits16_ir Protocol_init))))
              (t_traits D)) = {''Sized'', ''Value'', ''Equality'', ''Ordinal''} \<and>
       (\<forall>tr. dom (trait_dicts
                    (implement_trait D tr
                      (snd (derive_type sample_lexer seqnum_ir
                             (snd (define_bitstring sample_lexer bits16_ir Protocol_init)))))
                    6) = {''Sized'', ''Value'', ''Equality''})"
proof -
  let ?P = "snd (define_bitstring sample_lexer bits16_ir Protocol_init)"
  let ?Q = "snd (derive_type sample_lexer seqnum_ir ?P)"
  let ?B = "(prim ''BitString'' ''Bits16'' 6)\<lparr>t_size := Some 16\<rparr>"
  have b: "bs_construct bits16_ir = ''BitString''"
    "bs_name bits16_ir \<notin> dom (p_types Protocol_init)"
    "TYPE_NAME_REGEX sample_lexer (bs_name bits16_ir)"
    "{''Sized'', ''Value'', ''Equality''} \<subseteq> dom (p_traits Protocol_init)"
    by (simp_all add: bits16_ir_def Protocol_init_types Protocol_init_traits standard_trait_dom)
  have types: "p_types ?P = (p_types Protocol_init)(''Bits16'' \<mapsto> ?B)"
    using define_bitstring_ok(2) [OF b] by (simp add: bits16_ir_def Protocol_init_next)
  have traits: "p_traits ?P = map_of standard_traits"
    using define_bitstring_ok(3) [OF b] by (simp add: Protocol_init_traits)
  have nx: "next_obj ?P = 8"
    using define_bitstring_ok(5) [OF b] by (simp add: Protocol_init_next)
  have named: "traits_named ?P"
    using traits_named_init by (simp add: traits_named_def traits Protocol_init_traits)
  have wf: "store_wf ?P"
    by (rule store_wf_define_bitstring [OF store_wf_init])
  have bd: "dom (trait_dicts ?P 6) = {''Sized'', ''Value'', ''Equality''}"
    using define_bitstring_traits [OF b traits_named_init] by (simp add: Protocol_init_next)
  have ok: "fst (derive_type sample_lexer seqnum_ir ?P) = Inr ()"
    by (simp add: derive_type_def validate_irtype_def seqnum_ir_def types type_of_def
          Protocol_init_types split_beta Let_def implement_traits_ok traits standard_trait_dom)
  then have run: "derive_type sample_lexer seqnum_ir ?P = (Inr (), ?Q)"
    by (simp add: prod_eq_iff)
  have base: "p_types ?P (nt_derived_from seqnum_ir) = Some ?B"
    by (simp add: types seqnum_ir_def)
  from derived_type_owns_its_dictionaries [OF wf named run base]
  obtain D where D: "p_types ?Q (nt_name seqnum_ir) = Some D"
    "t_kind D = t_kind ?B" "t_name D = nt_name seqnum_ir"
    "dom (trait_dicts ?Q (t_traits D))
       = dom (trait_dicts ?P (t_traits ?B)) \<union> set (nt_implements seqnum_ir)"
    "\<forall>tr. trait_dicts (implement_trait D tr ?Q) (t_traits ?B) = trait_dicts ?P (t_traits ?B)"
    by blast
  have 1: "p_types ?Q ''SeqNum'' = Some D" using D(1) by (simp add: seqnum_ir_def)
  have 2: "t_kind D = ''BitString''" using D(2) by simp
  have 3: "t_name D = ''SeqNum''" using D(3) by (simp add: seqnum_ir_def)
  have 4: "dom (trait_dicts ?Q (t_traits D)) = {''Sized'', ''Value'', ''Equality'', ''Ordinal''}"
    using D(4) bd by (auto simp: seqnum_ir_def)
  have 5: "\<forall>tr. dom (trait_dicts (implement_trait D tr ?Q) 6) = {''Sized'', ''Value'', ''Equality''}"
    using D(5) bd by simp
  from 1 2 3 4 5 show ?thesis by blast
qed


section \<open>Running the resolution again\<close>




section \<open>Dependencies come first\<close>




end
